theory Spec2Isabelle
  imports Complex_Main "HOL-Library.AList" "HOL-Library.Product_Lexorder"
begin

section \<open>Data model\<close>

text \<open>
  A calendar date (\<^verbatim>\<open>datetime.date\<close>) is the triple (year, month, day); Python compares
  dates chronologically, which is the lexicographic order of the triple.
\<close>

type_synonym date = "nat \<times> nat \<times> nat"

text \<open>
  The three entity classes of \<^verbatim>\<open>entities.py\<close> (dataclasses) and of \<^verbatim>\<open>app.py\<close> (database
  models) have the same fields. The type parameter is the type of an amount: the in-memory
  manager holds Python numbers (\<^verbatim>\<open>float\<close> by annotation; the finite ones are rationals, and
  \<^verbatim>\<open>nan\<close> and the infinities are left out), the database rows hold \<^verbatim>\<open>Decimal\<close> values. The
  field \<^verbatim>\<open>policyholder_id\<close> of a policy and the field \<^verbatim>\<open>policy_id\<close> of a claim carry the
  name of their class as a prefix, since a field name denotes one selector only.
\<close>

record policyholder =
  policyholder_id :: string
  name :: string
  contact_info :: string

record 'a policy =
  policy_id :: string
  policy_type :: string
  coverage_amount :: 'a
  start_date :: date
  end_date :: date
  policy_policyholder_id :: string

record 'a claim =
  claim_id :: string
  description :: string
  amount :: 'a
  date :: date
  status :: string
  claim_policy_id :: string

text \<open>
  A Python \<^verbatim>\<open>dict\<close> (and a database table with its primary key) is an association list in
  insertion order: \<^const>\<open>map_of\<close> looks a key up, \<^const>\<open>AList.update\<close> replaces the value
  of a key that is there and appends a new key at the end, \<^const>\<open>AList.delete\<close> removes it.
\<close>

type_synonym 'v dict = "(string \<times> 'v) list"

definition has_key :: "'v dict \<Rightarrow> string \<Rightarrow> bool" where
  "has_key d k = (map_of d k \<noteq> None)"

definition dict_values :: "'v dict \<Rightarrow> 'v list" where
  "dict_values d = map snd d"

record 'a store =
  policyholders :: "policyholder dict"
  policies :: "'a policy dict"
  claims :: "'a claim dict"

text \<open>
  The exceptions the two modules raise, with their message where the repository's code
  writes one. \<open>TypeError\<close> and \<open>InvalidOperation\<close> are raised by the library only (a
  value of the wrong kind passed to the regular expression, to \<^verbatim>\<open>strptime\<close> or to the
  constructor of a model; an ordering comparison with a decimal NaN).
\<close>

datatype error =
    ValueError string
  | AttributeError string
  | TypeError
  | ValidationError string
  | ResourceNotFoundError string
  | DatabaseError string
  | InvalidOperation

section \<open>The in-memory manager (manager.py)\<close>

type_synonym ClaimsManager = "rat store"

text \<open>\<^verbatim>\<open>ClaimsManager.__init__\<close>: three empty dictionaries.\<close>

definition manager_init :: ClaimsManager where
  "manager_init = \<lparr>policyholders = [], policies = [], claims = []\<rparr>"

text \<open>
  Every method returns what it raised (\<open>Inl\<close>) or its value (\<open>Inr\<close>), and the manager as
  it is afterwards. \<^verbatim>\<open>dict.get\<close> returns \<^verbatim>\<open>None\<close> for a key that is not there.
\<close>

definition manager_create_policyholder ::
  "ClaimsManager \<Rightarrow> policyholder \<Rightarrow> (error + unit) \<times> ClaimsManager" where
  "manager_create_policyholder m ph =
     (if has_key (policyholders m) (policyholder_id ph)
      then (Inl (ValueError ''Policyholder ID already exists''), m)
      else (Inr (), m\<lparr>policyholders := AList.update (policyholder_id ph) ph (policyholders m)\<rparr>))"

definition manager_get_policyholder ::
  "ClaimsManager \<Rightarrow> string \<Rightarrow> (error + policyholder option) \<times> ClaimsManager" where
  "manager_get_policyholder m pid = (Inr (map_of (policyholders m) pid), m)"

definition manager_delete_policyholder ::
  "ClaimsManager \<Rightarrow> string \<Rightarrow> (error + unit) \<times> ClaimsManager" where
  "manager_delete_policyholder m pid =
     (if \<not> has_key (policyholders m) pid
      then (Inl (ValueError ''Policyholder not found''), m)
      else if list_ex (\<lambda>p. policy_policyholder_id p = pid) (dict_values (policies m))
      then (Inl (ValueError ''Policyholder has existing policies''), m)
      else (Inr (), m\<lparr>policyholders := AList.delete pid (policyholders m)\<rparr>))"

definition manager_create_policy ::
  "ClaimsManager \<Rightarrow> rat policy \<Rightarrow> (error + unit) \<times> ClaimsManager" where
  "manager_create_policy m p =
     (if has_key (policies m) (policy_id p)
      then (Inl (ValueError ''Policy ID already exists''), m)
      else if \<not> has_key (policyholders m) (policy_policyholder_id p)
      then (Inl (ValueError ''Policyholder does not exist''), m)
      else if start_date p > end_date p
      then (Inl (ValueError ''Invalid policy dates''), m)
      else (Inr (), m\<lparr>policies := AList.update (policy_id p) p (policies m)\<rparr>))"

definition manager_get_policy ::
  "ClaimsManager \<Rightarrow> string \<Rightarrow> (error + (rat policy) option) \<times> ClaimsManager" where
  "manager_get_policy m pid = (Inr (map_of (policies m) pid), m)"

definition manager_delete_policy ::
  "ClaimsManager \<Rightarrow> string \<Rightarrow> (error + unit) \<times> ClaimsManager" where
  "manager_delete_policy m pid =
     (if \<not> has_key (policies m) pid
      then (Inl (ValueError ''Policy not found''), m)
      else if list_ex (\<lambda>c. claim_policy_id c = pid) (dict_values (claims m))
      then (Inl (ValueError ''Policy has existing claims''), m)
      else (Inr (), m\<lparr>policies := AList.delete pid (policies m)\<rparr>))"

definition manager_create_claim ::
  "ClaimsManager \<Rightarrow> rat claim \<Rightarrow> (error + unit) \<times> ClaimsManager" where
  "manager_create_claim m c =
     (if has_key (claims m) (claim_id c)
      then (Inl (ValueError ''Claim ID already exists''), m)
      else (case map_of (policies m) (claim_policy_id c) of
        None \<Rightarrow> (Inl (ValueError ''Policy does not exist''), m)
      | Some policy \<Rightarrow>
          (if amount c > coverage_amount policy
           then (Inl (ValueError ''Claim exceeds policy coverage''), m)
           else if date c < start_date policy \<or> date c > end_date policy
           then (Inl (ValueError ''Claim date outside policy period''), m)
           else (Inr (), m\<lparr>claims := AList.update (claim_id c) c (claims m)\<rparr>))))"

definition manager_get_claim ::
  "ClaimsManager \<Rightarrow> string \<Rightarrow> (error + (rat claim) option) \<times> ClaimsManager" where
  "manager_get_claim m cid = (Inr (map_of (claims m) cid), m)"

definition manager_delete_claim ::
  "ClaimsManager \<Rightarrow> string \<Rightarrow> (error + unit) \<times> ClaimsManager" where
  "manager_delete_claim m cid =
     (if \<not> has_key (claims m) cid
      then (Inl (ValueError ''Claim not found''), m)
      else (Inr (), m\<lparr>claims := AList.delete cid (claims m)\<rparr>))"

subsection \<open>Updates by keyword arguments\<close>

text \<open>
  A keyword argument carries a string, a number or a date. The dataclasses do not check
  what is assigned; the records are typed by the annotations of \<^verbatim>\<open>entities.py\<close>, and
  the assignment to a field reads the value at the type annotated for the field (a value
  of another kind is outside this model).
\<close>

datatype 'a pyval = Str (the_str: string) | Num (the_num: 'a) | Date (the_date: date)

type_synonym kwargs = "(string \<times> rat pyval) list"

text \<open>
  \<^verbatim>\<open>hasattr\<close> holds for the fields of the object and for the names the object inherits from
  its class and from \<^verbatim>\<open>object\<close> (\<^verbatim>\<open>__doc__\<close>, \<^verbatim>\<open>__class__\<close>, \<^verbatim>\<open>__eq__\<close> and others). Which
  names these are, and what an assignment to one of them does, is decided by Python and
  not by the repository, so both are parameters of the model: \<open>inherited py key\<close> says
  that \<open>key\<close> is such a name, and \<open>assign_inherited py key v\<close> is the exception that
  \<^verbatim>\<open>setattr(obj, key, v)\<close> raises for it, or \<open>None\<close> when the assignment binds the name on the
  instance. Such a binding is not a field, and nothing in the manager reads it: the fields
  of the object stay as they are.
\<close>

record object_model =
  inherited :: "string \<Rightarrow> bool"
  assign_inherited :: "string \<Rightarrow> rat pyval \<Rightarrow> error option"

definition hasattr_policyholder :: "object_model \<Rightarrow> string \<Rightarrow> bool" where
  "hasattr_policyholder py key =
     (key \<in> set [''policyholder_id'', ''name'', ''contact_info''] \<or> inherited py key)"

definition setattr_policyholder ::
  "object_model \<Rightarrow> policyholder \<Rightarrow> string \<Rightarrow> rat pyval \<Rightarrow> error + policyholder" where
  "setattr_policyholder py ph key v =
     (if key = ''policyholder_id'' then Inr (ph\<lparr>policyholder_id := the_str v\<rparr>)
      else if key = ''name'' then Inr (ph\<lparr>name := the_str v\<rparr>)
      else if key = ''contact_info'' then Inr (ph\<lparr>contact_info := the_str v\<rparr>)
      else (case assign_inherited py key v of None \<Rightarrow> Inr ph | Some e \<Rightarrow> Inl e))"





text \<open>
  The loop \<^verbatim>\<open>for key, value in kwargs.items()\<close> of the three update methods, over the
  object it mutates: it assigns until a key is not an attribute, and raises there; an
  exception of an assignment ends it too. The object returned is the object as the loop
  left it.
\<close>

fun setattr_loop ::
  "(string \<Rightarrow> bool) \<Rightarrow> ('o \<Rightarrow> string \<Rightarrow> 'v \<Rightarrow> error + 'o) \<Rightarrow> 'o \<Rightarrow> (string \<times> 'v) list
    \<Rightarrow> (error + unit) \<times> 'o" where
  "setattr_loop hasattr setattr obj [] = (Inr (), obj)"
| "setattr_loop hasattr setattr obj ((key, v) # kws) =
     (if hasattr key
      then (case setattr obj key v of
              Inl e \<Rightarrow> (Inl e, obj)
            | Inr obj' \<Rightarrow> setattr_loop hasattr setattr obj' kws)
      else (Inl (AttributeError (''Invalid field: '' @ key)), obj))"

text \<open>
  The call itself refuses a keyword that is named like a parameter of the method
  (\<^verbatim>\<open>self\<close> and the identifier): Python raises \<^verbatim>\<open>TypeError\<close> for the argument given twice,
  before the body runs. So no update assigns the identifier attribute of its own class,
  and the object stays under the key it was stored at.
\<close>

definition manager_update_policyholder ::
  "object_model \<Rightarrow> ClaimsManager \<Rightarrow> string \<Rightarrow> kwargs \<Rightarrow> (error + unit) \<times> ClaimsManager"
  where
  "manager_update_policyholder py m pid kws =
     (if list_ex (\<lambda>(key, v). key \<in> set [''self'', ''policyholder_id'']) kws
      then (Inl TypeError, m)
      else case map_of (policyholders m) pid of
        None \<Rightarrow> (Inl (ValueError ''Policyholder not found''), m)
      | Some ph \<Rightarrow>
          (case setattr_loop (hasattr_policyholder py) (setattr_policyholder py) ph kws of
             (r, ph') \<Rightarrow> (r, m\<lparr>policyholders := AList.update pid ph' (policyholders m)\<rparr>)))"



section \<open>The web application (app.py)\<close>

subsection \<open>Values of the request body, decimals, the library\<close>

text \<open>
  A value of a JSON request body as \<^verbatim>\<open>request.get_json()\<close> returns it. A binary float is
  kept by its \<^verbatim>\<open>repr\<close> text: the handlers only pass it to \<^verbatim>\<open>str\<close>.
\<close>

datatype json =
    JNull
  | JBool bool
  | JInt int
  | JFloat string
  | JStr string
  | JArray "json list"
  | JObject "(string \<times> json) list"

text \<open>
  A \<^verbatim>\<open>decimal.Decimal\<close>: a sign (\<open>True\<close> for minus), a coefficient and an exponent, or an
  infinity, or a NaN. \<^verbatim>\<open>Decimal('1.234')\<close> is \<open>Finite False 1234 (- 3)\<close>.
\<close>

datatype decimal = Finite bool nat int | Infinity bool | NaN

definition dec_value :: "bool \<Rightarrow> nat \<Rightarrow> int \<Rightarrow> rat" where
  "dec_value s c e = (if s then - 1 else 1) * of_nat c * 10 powi e"

text \<open>
  \<^verbatim>\<open>a < b\<close> on decimals; \<open>None\<close> is the \<^verbatim>\<open>InvalidOperation\<close> that an ordering comparison
  with a NaN raises. \<^verbatim>\<open>a > b\<close> is \<open>dec_less b a\<close>.
\<close>

fun dec_less :: "decimal \<Rightarrow> decimal \<Rightarrow> bool option" where
  "dec_less NaN b = None"
| "dec_less a NaN = None"
| "dec_less (Infinity s) (Infinity t) = Some (s \<and> \<not> t)"
| "dec_less (Infinity s) (Finite t d f) = Some s"
| "dec_less (Finite s c e) (Infinity t) = Some (\<not> t)"
| "dec_less (Finite s c e) (Finite t d f) = Some (dec_value s c e < dec_value t d f)"

text \<open>
  The two library calls whose result the validators depend on are parameters of the model:
  \<open>Decimal_str v\<close> is \<^verbatim>\<open>Decimal(str(v))\<close>, with \<open>None\<close> when it raises one of
  \<^verbatim>\<open>TypeError\<close>, \<^verbatim>\<open>ValueError\<close>, \<^verbatim>\<open>InvalidOperation\<close>; \<open>strptime s\<close> is
  \<^verbatim>\<open>datetime.strptime(s, "%Y-%m-%d").date()\<close>, with \<open>None\<close> when it raises \<^verbatim>\<open>ValueError\<close>.
\<close>

record pylib =
  Decimal_str :: "json \<Rightarrow> decimal option"
  strptime :: "string \<Rightarrow> date option"

subsection \<open>Validators\<close>

definition bind_err :: "error + 'a \<Rightarrow> ('a \<Rightarrow> error + 'b) \<Rightarrow> error + 'b" where
  "bind_err r f = (case r of Inl e \<Rightarrow> Inl e | Inr x \<Rightarrow> f x)"

fun str_nat :: "nat \<Rightarrow> string" where
  "str_nat n =
     (if n < 10 then [''0123456789'' ! n]
      else str_nat (n div 10) @ [''0123456789'' ! (n mod 10)])"

definition validate_string_field :: "json \<Rightarrow> string \<Rightarrow> nat \<Rightarrow> error + string" where
  "validate_string_field v field_name max_length =
     (case v of
        JStr s \<Rightarrow>
          if s = [] then Inl (ValidationError (field_name @ '' must be a non-empty string''))
          else if length s > max_length
          then Inl (ValidationError
                 (field_name @ '' must not exceed '' @ str_nat max_length @ '' characters''))
          else Inr s
      | _ \<Rightarrow> Inl (ValidationError (field_name @ '' must be a non-empty string'')))"

text \<open>
  The pattern \<^verbatim>\<open>^[a-zA-Z0-9._%+-]+@[a-zA-Z0-9.-]+\.[a-zA-Z]{2,}$\<close>. The first class has
  no \<^verbatim>\<open>@\<close>, so the local part is the longest run of its characters; the last class has no
  dot, so the letters after the last dot are the top-level domain; \<^verbatim>\<open>$\<close> also matches
  before a newline that ends the text.
\<close>

definition is_alpha :: "char \<Rightarrow> bool" where
  "is_alpha c = (c \<in> set ''abcdefghijklmnopqrstuvwxyzABCDEFGHIJKLMNOPQRSTUVWXYZ'')"

definition is_alnum :: "char \<Rightarrow> bool" where
  "is_alnum c = (is_alpha c \<or> c \<in> set ''0123456789'')"

definition local_char :: "char \<Rightarrow> bool" where
  "local_char c = (is_alnum c \<or> c \<in> set ''._%+-'')"

definition domain_char :: "char \<Rightarrow> bool" where
  "domain_char c = (is_alnum c \<or> c \<in> set ''.-'')"

definition domain_match :: "string \<Rightarrow> bool" where
  "domain_match r =
     (let tld = rev (takeWhile (\<lambda>c. c \<noteq> CHR ''.'') (rev r));
          before = rev (dropWhile (\<lambda>c. c \<noteq> CHR ''.'') (rev r))
      in before \<noteq> [] \<and> butlast before \<noteq> [] \<and> list_all domain_char (butlast before)
         \<and> 2 \<le> length tld \<and> list_all is_alpha tld)"

definition email_match_end :: "string \<Rightarrow> bool" where
  "email_match_end s =
     (takeWhile local_char s \<noteq> []
      \<and> (case dropWhile local_char s of
            [] \<Rightarrow> False
          | c # r \<Rightarrow> c = CHR ''@'' \<and> domain_match r))"

definition email_pattern_match :: "string \<Rightarrow> bool" where
  "email_pattern_match s =
     (email_match_end s \<or> (s \<noteq> [] \<and> last s = CHR 0x0A \<and> email_match_end (butlast s)))"

definition validate_email :: "json \<Rightarrow> error + string" where
  "validate_email v =
     (case v of
        JStr s \<Rightarrow> if email_pattern_match s then Inr s
                  else Inl (ValidationError ''Invalid email format'')
      | _ \<Rightarrow> Inl TypeError)"

text \<open>
  \<open>validate_amount\<close>: the \<^verbatim>\<open>ValidationError\<close> raised inside the \<^verbatim>\<open>try\<close> is not among the
  exceptions the \<^verbatim>\<open>except\<close> clause catches; the \<^verbatim>\<open>InvalidOperation\<close> of the comparison
  of a NaN is. The decimal is returned as converted.
\<close>

definition validate_amount :: "pylib \<Rightarrow> json \<Rightarrow> error + decimal" where
  "validate_amount L v =
     (case Decimal_str L v of
        None \<Rightarrow> Inl (ValidationError ''Amount must be a valid number'')
      | Some a \<Rightarrow>
          (case dec_less a (Finite False 0 0) of
             None \<Rightarrow> Inl (ValidationError ''Amount must be a valid number'')
           | Some True \<Rightarrow> Inl (ValidationError ''Amount must be non-negative'')
           | Some False \<Rightarrow> Inr a))"

definition validate_date :: "pylib \<Rightarrow> json \<Rightarrow> error + date" where
  "validate_date L v =
     (case v of
        JStr s \<Rightarrow>
          (case strptime L s of
             None \<Rightarrow> Inl (ValidationError ''Invalid date format. Use YYYY-MM-DD'')
           | Some d \<Rightarrow> Inr d)
      | _ \<Rightarrow> Inl TypeError)"

definition validate_date_range :: "date \<Rightarrow> date \<Rightarrow> error + unit" where
  "validate_date_range start end =
     (if start \<ge> end then Inl (ValidationError ''End date must be after start date'')
      else Inr ())"

definition validate_status :: "json \<Rightarrow> error + string" where
  "validate_status v =
     (case v of
        JStr s \<Rightarrow>
          if s \<in> set [''Pending'', ''Approved'', ''Rejected''] then Inr s
          else Inl (ValidationError ''Status must be one of: Pending, Approved, Rejected'')
      | _ \<Rightarrow> Inl (ValidationError ''Status must be one of: Pending, Approved, Rejected''))"

subsection \<open>Models and their input validation\<close>

type_synonym database = "decimal store"

type_synonym body = "json dict"

text \<open>
  The loop over \<^verbatim>\<open>required_fields\<close>: the first required field that the body lacks.
\<close>

definition missing_field :: "string list \<Rightarrow> body \<Rightarrow> string option" where
  "missing_field required_fields data = List.find (\<lambda>field. \<not> has_key data field) required_fields"

text \<open>\<^verbatim>\<open>data[key]\<close>, read after the loop above has found the key.\<close>

definition item :: "body \<Rightarrow> string \<Rightarrow> json" where
  "item data key = the (map_of data key)"

text \<open>
  The three \<^verbatim>\<open>validate_input\<close> methods return the body with the validated values written
  into it; the model returns the fields that the constructor of the row reads from it. A
  policy's dates stay texts in the body and the database reads them as dates: the row has
  the dates \<^verbatim>\<open>validate_date\<close> parsed.
\<close>

definition Policyholder_validate_input :: "body \<Rightarrow> error + policyholder" where
  "Policyholder_validate_input data =
     (case missing_field [''policyholder_id'', ''name'', ''contact_info''] data of
        Some field \<Rightarrow> Inl (ValidationError (''Missing required field: '' @ field))
      | None \<Rightarrow>
          bind_err (validate_string_field (item data ''policyholder_id'') ''Policyholder ID'' 50)
            (\<lambda>pid.
          bind_err (validate_string_field (item data ''name'') ''Name'' 100) (\<lambda>nm.
          bind_err (validate_email (item data ''contact_info'')) (\<lambda>contact.
          Inr \<lparr>policyholder_id = pid, name = nm, contact_info = contact\<rparr>))))"

definition Policy_validate_input :: "pylib \<Rightarrow> body \<Rightarrow> error + decimal policy" where
  "Policy_validate_input L data =
     (case missing_field [''policy_id'', ''policy_type'', ''coverage_amount'', ''start_date'',
                          ''end_date'', ''policyholder_id''] data of
        Some field \<Rightarrow> Inl (ValidationError (''Missing required field: '' @ field))
      | None \<Rightarrow>
          bind_err (validate_string_field (item data ''policy_id'') ''Policy ID'' 50) (\<lambda>pid.
          bind_err (validate_string_field (item data ''policy_type'') ''Policy Type'' 100) (\<lambda>ty.
          bind_err (validate_string_field (item data ''policyholder_id'') ''Policyholder ID'' 50)
            (\<lambda>phid.
          bind_err (validate_amount L (item data ''coverage_amount'')) (\<lambda>cov.
          bind_err (validate_date L (item data ''start_date'')) (\<lambda>start.
          bind_err (validate_date L (item data ''end_date'')) (\<lambda>end.
          bind_err (validate_date_range start end) (\<lambda>_.
          Inr \<lparr>policy_id = pid, policy_type = ty, coverage_amount = cov, start_date = start,
               end_date = end, policy_policyholder_id = phid\<rparr>))))))))"

definition Claim_validate_input :: "pylib \<Rightarrow> body \<Rightarrow> error + decimal claim" where
  "Claim_validate_input L data =
     (case missing_field [''claim_id'', ''description'', ''amount'', ''date'', ''policy_id''] data of
        Some field \<Rightarrow> Inl (ValidationError (''Missing required field: '' @ field))
      | None \<Rightarrow>
          bind_err (validate_string_field (item data ''claim_id'') ''Claim ID'' 50) (\<lambda>cid.
          bind_err (validate_string_field (item data ''description'') ''Description'' 1000) (\<lambda>d.
          bind_err (validate_string_field (item data ''policy_id'') ''Policy ID'' 50) (\<lambda>pid.
          bind_err (validate_amount L (item data ''amount'')) (\<lambda>a.
          bind_err (validate_date L (item data ''date'')) (\<lambda>dt.
          bind_err (validate_status
                      (case map_of data ''status'' of None \<Rightarrow> JStr ''Pending'' | Some v \<Rightarrow> v))
            (\<lambda>st.
          Inr \<lparr>claim_id = cid, description = d, amount = a, date = dt, status = st,
               claim_policy_id = pid\<rparr>)))))))"

text \<open>
  \<^verbatim>\<open>Model(**validated_data)\<close>: the declarative constructor raises \<^verbatim>\<open>TypeError\<close> at a keyword
  that is not an attribute of the class. The attributes modelled are the columns; a key
  that names a relationship or a method of the class is left out.
\<close>

definition constructor_accepts :: "string list \<Rightarrow> body \<Rightarrow> bool" where
  "constructor_accepts columns data = list_all (\<lambda>k. k \<in> set columns) (map fst data)"

definition Policyholder_columns :: "string list" where
  "Policyholder_columns = [''policyholder_id'', ''name'', ''contact_info'']"

definition Policy_columns :: "string list" where
  "Policy_columns = [''policy_id'', ''policy_type'', ''coverage_amount'', ''start_date'',
                     ''end_date'', ''policyholder_id'']"

definition Claim_columns :: "string list" where
  "Claim_columns = [''claim_id'', ''description'', ''amount'', ''date'', ''status'', ''policy_id'']"

text \<open>
  \<open>handle_error\<close>: the \<^verbatim>\<open>error\<close> member of the response and its status code (the
  \<^verbatim>\<open>message\<close> member is the text of the exception).
\<close>

definition handle_error :: "error \<Rightarrow> string \<times> nat" where
  "handle_error e =
     (case e of
        ValidationError _ \<Rightarrow> (''Validation error'', 400)
      | ResourceNotFoundError _ \<Rightarrow> (''Resource not found'', 404)
      | DatabaseError _ \<Rightarrow> (''Database error'', 500)
      | _ \<Rightarrow> (''Internal server error'', 500))"

text \<open>
  \<open>safe_commit\<close>: whether \<^verbatim>\<open>db.session.commit()\<close> raises is not decided by the code; the
  argument \<open>fault\<close> is the text of the exception it raises, or \<open>None\<close>. \<open>old\<close> is the
  database as committed, \<open>new\<close> is the database with the session's changes.
\<close>

definition safe_commit ::
  "string option \<Rightarrow> database \<Rightarrow> database \<Rightarrow> (error + unit) \<times> database" where
  "safe_commit fault old new =
     (case fault of
        None \<Rightarrow> (Inr (), new)
      | Some e \<Rightarrow> (Inl (DatabaseError (''Database error: '' @ e)), old))"

subsection \<open>Request handlers\<close>

text \<open>
  A handler takes the database as committed, the arguments of the request (the identifier
  of the URL, the JSON object of the body) and the outcome of the commit. It returns the
  exception it raised or its response (the row whose fields the JSON response lists, or
  the message, and the status code), and the database as committed afterwards. The amounts
  of a response are passed through \<^verbatim>\<open>float\<close> and the dates through \<^verbatim>\<open>str\<close>, which the row
  returned here leaves out. The database stores what it is given: the rounding of
  \<^verbatim>\<open>Numeric(12, 2)\<close> and the limits of the columns belong to the database, and an insert it
  refuses is a commit that raises.
\<close>

definition commit_then ::
  "string option \<Rightarrow> database \<Rightarrow> database \<Rightarrow> 'r \<Rightarrow> (error + 'r) \<times> database" where
  "commit_then fault old new response =
     (case safe_commit fault old new of
        (Inl e, d) \<Rightarrow> (Inl e, d)
      | (Inr u, d) \<Rightarrow> (Inr response, d))"

definition app_create_policyholder ::
  "database \<Rightarrow> body \<Rightarrow> string option \<Rightarrow> (error + policyholder \<times> nat) \<times> database" where
  "app_create_policyholder db data fault =
     (if data = [] then (Inl (ValidationError ''No input data provided''), db)
      else (case Policyholder_validate_input data of
        Inl e \<Rightarrow> (Inl e, db)
      | Inr ph \<Rightarrow>
          (if has_key (policyholders db) (policyholder_id ph)
           then (Inl (ValidationError ''Policyholder ID already exists''), db)
           else if \<not> constructor_accepts Policyholder_columns data then (Inl TypeError, db)
           else commit_then fault db
                  (db\<lparr>policyholders := AList.update (policyholder_id ph) ph (policyholders db)\<rparr>)
                  (ph, 201))))"

definition app_get_policyholder ::
  "database \<Rightarrow> string \<Rightarrow> (error + policyholder \<times> nat) \<times> database" where
  "app_get_policyholder db pid =
     (case map_of (policyholders db) pid of
        None \<Rightarrow> (Inl (ResourceNotFoundError ''Policyholder not found''), db)
      | Some ph \<Rightarrow> (Inr (ph, 200), db))"

definition app_update_policyholder ::
  "database \<Rightarrow> string \<Rightarrow> body \<Rightarrow> string option \<Rightarrow> (error + policyholder \<times> nat) \<times> database"
  where
  "app_update_policyholder db pid data fault =
     (case map_of (policyholders db) pid of
        None \<Rightarrow> (Inl (ResourceNotFoundError ''Policyholder not found''), db)
      | Some ph \<Rightarrow>
          (case bind_err
                  (if has_key data ''name''
                   then bind_err (validate_string_field (item data ''name'') ''Name'' 100)
                          (\<lambda>nm. Inr (ph\<lparr>name := nm\<rparr>))
                   else Inr ph) (\<lambda>ph.
                if has_key data ''contact_info''
                then bind_err (validate_email (item data ''contact_info''))
                       (\<lambda>contact. Inr (ph\<lparr>contact_info := contact\<rparr>))
                else Inr ph) of
             Inl e \<Rightarrow> (Inl e, db)
           | Inr ph' \<Rightarrow>
               commit_then fault db
                 (db\<lparr>policyholders := AList.update pid ph' (policyholders db)\<rparr>) (ph', 200)))"

text \<open>
  \<^verbatim>\<open>db.session.delete(ph)\<close>: the relationship \<^verbatim>\<open>policies\<close> of a policyholder and the
  relationship \<^verbatim>\<open>claims\<close> of a policy are declared with \<^verbatim>\<open>cascade="all, delete-orphan"\<close>,
  so the session deletes the policies of the policyholder and the claims of those policies
  with it.
\<close>

definition app_delete_policyholder ::
  "database \<Rightarrow> string \<Rightarrow> string option \<Rightarrow> (error + string \<times> nat) \<times> database" where
  "app_delete_policyholder db pid fault =
     (case map_of (policyholders db) pid of
        None \<Rightarrow> (Inl (ResourceNotFoundError ''Policyholder not found''), db)
      | Some ph \<Rightarrow>
          (let owned = map fst (filter (\<lambda>(k, p). policy_policyholder_id p = pid) (policies db))
           in commit_then fault db
                (db\<lparr>policyholders := AList.delete pid (policyholders db),
                    policies := filter (\<lambda>(k, p). policy_policyholder_id p \<noteq> pid) (policies db),
                    claims := filter (\<lambda>(k, c). claim_policy_id c \<notin> set owned) (claims db)\<rparr>)
                (''Policyholder deleted successfully'', 200)))"

definition app_create_policy ::
  "pylib \<Rightarrow> database \<Rightarrow> body \<Rightarrow> string option \<Rightarrow> (error + decimal policy \<times> nat) \<times> database"
  where
  "app_create_policy L db data fault =
     (if data = [] then (Inl (ValidationError ''No input data provided''), db)
      else (case Policy_validate_input L data of
        Inl e \<Rightarrow> (Inl e, db)
      | Inr p \<Rightarrow>
          (if has_key (policies db) (policy_id p)
           then (Inl (ValidationError ''Policy ID already exists''), db)
           else if \<not> has_key (policyholders db) (policy_policyholder_id p)
           then (Inl (ResourceNotFoundError ''Policyholder not found''), db)
           else if \<not> constructor_accepts Policy_columns data then (Inl TypeError, db)
           else commit_then fault db
                  (db\<lparr>policies := AList.update (policy_id p) p (policies db)\<rparr>) (p, 201))))"

definition app_get_policy ::
  "database \<Rightarrow> string \<Rightarrow> (error + decimal policy \<times> nat) \<times> database" where
  "app_get_policy db pid =
     (case map_of (policies db) pid of
        None \<Rightarrow> (Inl (ResourceNotFoundError ''Policy not found''), db)
      | Some p \<Rightarrow> (Inr (p, 200), db))"


text \<open>Deleting a policy deletes its claims with it, by the cascade of \<^verbatim>\<open>Policy.claims\<close>.\<close>

definition app_delete_policy ::
  "database \<Rightarrow> string \<Rightarrow> string option \<Rightarrow> (error + string \<times> nat) \<times> database" where
  "app_delete_policy db pid fault =
     (case map_of (policies db) pid of
        None \<Rightarrow> (Inl (ResourceNotFoundError ''Policy not found''), db)
      | Some policy \<Rightarrow>
          commit_then fault db
            (db\<lparr>policies := AList.delete pid (policies db),
                claims := filter (\<lambda>(k, c). claim_policy_id c \<noteq> pid) (claims db)\<rparr>)
            (''Policy deleted successfully'', 200))"

definition app_create_claim ::
  "pylib \<Rightarrow> database \<Rightarrow> body \<Rightarrow> string option \<Rightarrow> (error + decimal claim \<times> nat) \<times> database"
  where
  "app_create_claim L db data fault =
     (if data = [] then (Inl (ValidationError ''No input data provided''), db)
      else (case Claim_validate_input L data of
        Inl e \<Rightarrow> (Inl e, db)
      | Inr c \<Rightarrow>
          if has_key (claims db) (claim_id c)
          then (Inl (ValidationError ''Claim ID already exists''), db)
          else (case map_of (policies db) (claim_policy_id c) of
            None \<Rightarrow> (Inl (ResourceNotFoundError ''Policy not found''), db)
          | Some policy \<Rightarrow>
              (case dec_less (coverage_amount policy) (amount c) of
                 None \<Rightarrow> (Inl InvalidOperation, db)
               | Some True \<Rightarrow> (Inl (ValidationError ''Claim amount exceeds policy coverage''), db)
               | Some False \<Rightarrow>
                   (if \<not> constructor_accepts Claim_columns data then (Inl TypeError, db)
                    else commit_then fault db
                           (db\<lparr>claims := AList.update (claim_id c) c (claims db)\<rparr>) (c, 201))))))"

definition app_get_claim ::
  "database \<Rightarrow> string \<Rightarrow> (error + decimal claim \<times> nat) \<times> database" where
  "app_get_claim db cid =
     (case map_of (claims db) cid of
        None \<Rightarrow> (Inl (ResourceNotFoundError ''Claim not found''), db)
      | Some c \<Rightarrow> (Inr (c, 200), db))"


definition app_delete_claim ::
  "database \<Rightarrow> string \<Rightarrow> string option \<Rightarrow> (error + string \<times> nat) \<times> database" where
  "app_delete_claim db cid fault =
     (case map_of (claims db) cid of
        None \<Rightarrow> (Inl (ResourceNotFoundError ''Claim not found''), db)
      | Some c \<Rightarrow>
          commit_then fault db (db\<lparr>claims := AList.delete cid (claims db)\<rparr>)
            (''Claim deleted successfully'', 200))"

text \<open>The objects of \<^verbatim>\<open>tests.py\<close>.\<close>

definition ph1 :: policyholder where
  "ph1 = \<lparr>policyholder_id = ''ph1'', name = ''Alice'', contact_info = ''alice@email.com''\<rparr>"

definition p1 :: "rat policy" where
  "p1 = \<lparr>policy_id = ''p1'', policy_type = ''Home'', coverage_amount = 100000,
         start_date = (2024, 1, 1), end_date = (2025, 1, 1), policy_policyholder_id = ''ph1''\<rparr>"

definition c1 :: "rat claim" where
  "c1 = \<lparr>claim_id = ''c1'', description = ''Fire Damage'', amount = 50000,
         date = (2024, 6, 1), status = ''Pending'', claim_policy_id = ''p1''\<rparr>"

definition manager_ph1 :: ClaimsManager where
  "manager_ph1 = \<lparr>policyholders = [(''ph1'', ph1)], policies = [], claims = []\<rparr>"

definition manager_p1 :: ClaimsManager where
  "manager_p1 = \<lparr>policyholders = [(''ph1'', ph1)], policies = [(''p1'', p1)], claims = []\<rparr>"

definition manager_c1 :: ClaimsManager where
  "manager_c1 =
     \<lparr>policyholders = [(''ph1'', ph1)], policies = [(''p1'', p1)], claims = [(''c1'', c1)]\<rparr>"

text \<open>
  An instance of the object model, to run the update methods on concrete calls: the names
  that an instance of a dataclass inherits in every version of Python 3 that has
  dataclasses (a name that only some versions have is left out), for an object of the
  class named. Assigning a string, a number or a date to \<^verbatim>\<open>__class__\<close> or to
  \<^verbatim>\<open>__dict__\<close> raises \<^verbatim>\<open>TypeError\<close>, \<^verbatim>\<open>__weakref__\<close> is not writable, and every other
  name is bound on the instance.
\<close>

definition object_names :: "string list" where
  "object_names =
     [''__class__'', ''__delattr__'', ''__dir__'', ''__doc__'', ''__eq__'', ''__format__'',
      ''__ge__'', ''__getattribute__'', ''__gt__'', ''__hash__'', ''__init__'',
      ''__init_subclass__'', ''__le__'', ''__lt__'', ''__ne__'', ''__new__'', ''__reduce__'',
      ''__reduce_ex__'', ''__repr__'', ''__setattr__'', ''__sizeof__'', ''__str__'',
      ''__subclasshook__'', ''__dict__'', ''__module__'', ''__weakref__'',
      ''__dataclass_fields__'', ''__dataclass_params__'']"

definition cpython_object :: "string \<Rightarrow> object_model" where
  "cpython_object class_name =
     \<lparr>inherited = (\<lambda>key. key \<in> set object_names),
      assign_inherited = (\<lambda>key v.
        if key \<in> set [''__class__'', ''__dict__''] then Some TypeError
        else if key = ''__weakref__''
        then Some (AttributeError
               (''attribute '' @ CHR 0x27 # ''__weakref__'' @ CHR 0x27 # '' of ''
                @ CHR 0x27 # class_name @ CHR 0x27 # '' objects is not writable''))
        else None)\<rparr>"

text \<open>
  An instance of the library, to run the handlers on concrete requests. It reads the
  numerals \<^verbatim>\<open>[-]digits[.digits]\<close> and the dates \<^verbatim>\<open>YYYY-MM-DD\<close> as Python does, and refuses
  every other text (Python accepts more of them).
\<close>

definition is_digit :: "char \<Rightarrow> bool" where
  "is_digit c = (c \<in> set ''0123456789'')"

definition digits_value :: "string \<Rightarrow> nat" where
  "digits_value ds = foldl (\<lambda>a c. 10 * a + (of_char c - 48)) 0 ds"

definition plain_decimal :: "string \<Rightarrow> decimal option" where
  "plain_decimal s =
     (let neg = (s \<noteq> [] \<and> hd s = CHR ''-'');
          t = (if neg then tl s else s);
          ip = takeWhile is_digit t;
          r = dropWhile is_digit t
      in if ip = [] then None
         else if r = [] then Some (Finite neg (digits_value ip) 0)
         else if hd r = CHR ''.'' \<and> tl r \<noteq> [] \<and> list_all is_digit (tl r)
         then Some (Finite neg (digits_value (ip @ tl r)) (- int (length (tl r))))
         else None)"

definition plain_Decimal_str :: "json \<Rightarrow> decimal option" where
  "plain_Decimal_str v =
     (case v of
        JStr s \<Rightarrow> plain_decimal s
      | JFloat r \<Rightarrow> plain_decimal r
      | JInt n \<Rightarrow> Some (Finite (n < 0) (nat \<bar>n\<bar>) 0)
      | _ \<Rightarrow> None)"

definition days_in_month :: "nat \<Rightarrow> nat \<Rightarrow> nat" where
  "days_in_month y m =
     (if m = 2 then (if y mod 4 = 0 \<and> (y mod 100 \<noteq> 0 \<or> y mod 400 = 0) then 29 else 28)
      else if m \<in> set [4, 6, 9, 11] then 30 else 31)"

definition iso_date :: "string \<Rightarrow> date option" where
  "iso_date s =
     (if length s = 10 \<and> s ! 4 = CHR ''-'' \<and> s ! 7 = CHR ''-''
         \<and> list_all is_digit (take 4 s @ take 2 (drop 5 s) @ drop 8 s)
      then (let y = digits_value (take 4 s); m = digits_value (take 2 (drop 5 s));
                d = digits_value (drop 8 s)
            in if 1 \<le> y \<and> 1 \<le> m \<and> m \<le> 12 \<and> 1 \<le> d \<and> d \<le> days_in_month y m
               then Some (y, m, d) else None)
      else None)"

definition plain_lib :: pylib where
  "plain_lib = \<lparr>Decimal_str = plain_Decimal_str, strptime = iso_date\<rparr>"

text \<open>The requests and rows of the example of the specification.\<close>

definition body_ph1 :: body where
  "body_ph1 = [(''policyholder_id'', JStr ''ph1''), (''name'', JStr ''Alice''),
               (''contact_info'', JStr ''alice@x.com'')]"

definition body_p1 :: body where
  "body_p1 = [(''policy_id'', JStr ''p1''), (''policy_type'', JStr ''Home''),
              (''coverage_amount'', JFloat ''100000.0''), (''start_date'', JStr ''2024-01-01''),
              (''end_date'', JStr ''2025-01-01''), (''policyholder_id'', JStr ''ph1'')]"

definition body_c1 :: body where
  "body_c1 = [(''claim_id'', JStr ''c1''), (''description'', JStr ''Fire Damage''),
              (''amount'', JFloat ''50000.0''), (''date'', JStr ''2024-06-01''),
              (''policy_id'', JStr ''p1'')]"

definition body_c2 :: body where
  "body_c2 = [(''claim_id'', JStr ''c2''), (''description'', JStr ''Damage''),
              (''amount'', JFloat ''200000.0''), (''date'', JStr ''2024-06-01''),
              (''policy_id'', JStr ''p1'')]"

definition body_ph1_bad_email :: body where
  "body_ph1_bad_email = [(''policyholder_id'', JStr ''ph1''), (''name'', JStr ''Alice''),
               (''contact_info'', JStr ''alice'')]"

definition body_p1_bad_dates :: body where
  "body_p1_bad_dates = [(''policy_id'', JStr ''p1''), (''policy_type'', JStr ''Home''),
              (''coverage_amount'', JFloat ''100000.0''), (''start_date'', JStr ''2024-01-01''),
              (''end_date'', JStr ''2024-01-01''), (''policyholder_id'', JStr ''ph1'')]"

definition body_c1_bad_status :: body where
  "body_c1_bad_status = [(''claim_id'', JStr ''c1''), (''description'', JStr ''Fire Damage''),
              (''amount'', JFloat ''50000.0''), (''date'', JStr ''2024-06-01''),
              (''status'', JStr ''Open''), (''policy_id'', JStr ''p1'')]"

definition row_ph1 :: policyholder where
  "row_ph1 = \<lparr>policyholder_id = ''ph1'', name = ''Alice'', contact_info = ''alice@x.com''\<rparr>"

definition row_p1 :: "decimal policy" where
  "row_p1 = \<lparr>policy_id = ''p1'', policy_type = ''Home'',
             coverage_amount = Finite False 1000000 (- 1), start_date = (2024, 1, 1),
             end_date = (2025, 1, 1), policy_policyholder_id = ''ph1''\<rparr>"

definition row_c1 :: "decimal claim" where
  "row_c1 = \<lparr>claim_id = ''c1'', description = ''Fire Damage'',
             amount = Finite False 500000 (- 1), date = (2024, 6, 1), status = ''Pending'',
             claim_policy_id = ''p1''\<rparr>"

definition row_c2 :: "decimal claim" where
  "row_c2 = \<lparr>claim_id = ''c2'', description = ''Damage'',
             amount = Finite False 2000000 (- 1), date = (2024, 6, 1), status = ''Pending'',
             claim_policy_id = ''p1''\<rparr>"

definition db_init :: database where
  "db_init = \<lparr>policyholders = [], policies = [], claims = []\<rparr>"

definition db_ph1 :: database where
  "db_ph1 = \<lparr>policyholders = [(''ph1'', row_ph1)], policies = [], claims = []\<rparr>"

definition db_p1 :: database where
  "db_p1 = \<lparr>policyholders = [(''ph1'', row_ph1)], policies = [(''p1'', row_p1)], claims = []\<rparr>"

definition db_c1 :: database where
  "db_c1 = \<lparr>policyholders = [(''ph1'', row_ph1)], policies = [(''p1'', row_p1)],
            claims = [(''c1'', row_c1)]\<rparr>"

section \<open>Shared facts\<close>

text \<open>
  The objects of \<^verbatim>\<open>tests.py\<close> are the result of the calls of \<^verbatim>\<open>test_create_claim\<close>.
\<close>

lemma manager_tests_setup:
  "manager_create_policyholder manager_init ph1 = (Inr (), manager_ph1)"
  "manager_create_policy manager_ph1 p1 = (Inr (), manager_p1)"
  "manager_create_claim manager_p1 c1 = (Inr (), manager_c1)"
  by (simp_all add: manager_create_policyholder_def manager_create_policy_def
      manager_create_claim_def manager_init_def manager_ph1_def manager_p1_def manager_c1_def
      has_key_def ph1_def p1_def c1_def)

lemma Policyholder_validate_input_nonempty:
  "Policyholder_validate_input data = Inr ph \<Longrightarrow> data \<noteq> []"
  by (auto simp: Policyholder_validate_input_def missing_field_def has_key_def)

lemma Policy_validate_input_nonempty:
  "Policy_validate_input L data = Inr p \<Longrightarrow> data \<noteq> []"
  by (auto simp: Policy_validate_input_def missing_field_def has_key_def)

lemma Claim_validate_input_nonempty:
  "Claim_validate_input L data = Inr c \<Longrightarrow> data \<noteq> []"
  by (auto simp: Claim_validate_input_def missing_field_def has_key_def)

lemma commit_then_simps:
  "commit_then None old new r = (Inr r, new)"
  "commit_then (Some t) old new r = (Inl (DatabaseError (''Database error: '' @ t)), old)"
  by (simp_all add: commit_then_def safe_commit_def)

lemma commit_then_failure:
  "commit_then fault old new r = (Inl e, d) \<Longrightarrow> d = old"
  by (cases fault) (simp_all add: commit_then_simps)

text \<open>The definitions a concrete request is evaluated with.\<close>

lemmas validator_defs = validate_email_def email_pattern_match_def email_match_end_def domain_match_def
     local_char_def domain_char_def is_alnum_def is_alpha_def validate_string_field_def
     validate_amount_def validate_date_def validate_date_range_def validate_status_def
     bind_err_def missing_field_def item_def has_key_def
     plain_lib_def plain_Decimal_str_def plain_decimal_def iso_date_def days_in_month_def
     is_digit_def digits_value_def dec_value_def

lemma example_bodies:
  "Policyholder_validate_input body_ph1 = Inr row_ph1"
  "Policy_validate_input plain_lib body_p1 = Inr row_p1"
  "Claim_validate_input plain_lib body_c1 = Inr row_c1"
  "Claim_validate_input plain_lib body_c2 = Inr row_c2"
  by (simp_all add: Policyholder_validate_input_def Policy_validate_input_def
      Claim_validate_input_def body_ph1_def body_p1_def body_c1_def body_c2_def
      row_ph1_def row_p1_def row_c1_def row_c2_def validator_defs)


text \<open>The rows of the example are what the create routes store for its requests.\<close>

lemma app_example_setup:
  "app_create_policyholder db_init body_ph1 None = (Inr (row_ph1, 201), db_ph1)"
  "app_create_policy plain_lib db_ph1 body_p1 None = (Inr (row_p1, 201), db_p1)"
  "app_create_claim plain_lib db_p1 body_c1 None = (Inr (row_c1, 201), db_c1)"
  by (simp_all add: app_create_policyholder_def app_create_policy_def app_create_claim_def
      Policyholder_validate_input_def Policy_validate_input_def Claim_validate_input_def
      validator_defs constructor_accepts_def Policyholder_columns_def Policy_columns_def
      Claim_columns_def commit_then_simps db_init_def db_ph1_def db_p1_def db_c1_def
      row_ph1_def row_p1_def row_c1_def body_ph1_def body_p1_def body_c1_def)

lemma list_ex_filter_out:
  "\<not> list_ex P (dict_values (filter (\<lambda>(k, v). \<not> P v) d))"
  by (auto simp: list_ex_iff dict_values_def)

lemma has_key_delete: "\<not> has_key (AList.delete k d) k"
  by (simp add: has_key_def AList.delete_conv')

lemma dec_value_negative: "dec_value s c e < 0 \<longleftrightarrow> s \<and> c \<noteq> 0"
proof -
  have p: "(0::rat) < 10 powi e" by simp
  show ?thesis
    by (cases s) (simp_all add: dec_value_def mult_less_0_iff zero_less_mult_iff p not_less)
qed

lemma dec_value_zero: "dec_value False 0 0 = 0"
  by (simp add: dec_value_def)






section \<open>The claims\<close>

subsection \<open>C1: the coverage of the policy bounds the amount of a new claim\<close>

text \<open>
  C1. With a new identifier, an existing policy and (in the manager) a date within the
  period of the policy, the manager stores the claim when its amount is at most the
  coverage of the policy, and otherwise raises \<^verbatim>\<open>ValueError\<close> and stores nothing. In the
  application, for a body that passes \<open>Claim.validate_input\<close> and has only columns as keys,
  the handler raises \<^verbatim>\<open>ValidationError\<close> (status 400) and stores nothing when the amount is
  greater than the coverage, and otherwise stores the claim (when the commit succeeds).
\<close>

theorem create_claim_coverage:
  "(\<not> has_key (claims m) (claim_id c) \<and> map_of (policies m) (claim_policy_id c) = Some p
      \<and> start_date p \<le> date c \<and> date c \<le> end_date p
    \<longrightarrow> manager_create_claim m c =
          (if amount c \<le> coverage_amount p
           then (Inr (), m\<lparr>claims := AList.update (claim_id c) c (claims m)\<rparr>)
           else (Inl (ValueError ''Claim exceeds policy coverage''), m)))
   \<and> (Claim_validate_input L data = Inr r \<and> \<not> has_key (claims db) (claim_id r)
      \<and> map_of (policies db) (claim_policy_id r) = Some q
      \<and> dec_less (coverage_amount q) (amount r) = Some exceeds
      \<and> constructor_accepts Claim_columns data
    \<longrightarrow> app_create_claim L db data fault =
          (if exceeds then (Inl (ValidationError ''Claim amount exceeds policy coverage''), db)
           else case fault of
                  None \<Rightarrow> (Inr (r, 201), db\<lparr>claims := AList.update (claim_id r) r (claims db)\<rparr>)
                | Some t \<Rightarrow> (Inl (DatabaseError (''Database error: '' @ t)), db)))"
proof (intro conjI impI)
  assume "\<not> has_key (claims m) (claim_id c) \<and> map_of (policies m) (claim_policy_id c) = Some p
      \<and> start_date p \<le> date c \<and> date c \<le> end_date p"
  then show "manager_create_claim m c =
          (if amount c \<le> coverage_amount p
           then (Inr (), m\<lparr>claims := AList.update (claim_id c) c (claims m)\<rparr>)
           else (Inl (ValueError ''Claim exceeds policy coverage''), m))"
    by (auto simp: manager_create_claim_def)
next
  assume a: "Claim_validate_input L data = Inr r \<and> \<not> has_key (claims db) (claim_id r)
      \<and> map_of (policies db) (claim_policy_id r) = Some q
      \<and> dec_less (coverage_amount q) (amount r) = Some exceeds
      \<and> constructor_accepts Claim_columns data"
  then have "data \<noteq> []" by (auto dest: Claim_validate_input_nonempty)
  with a show "app_create_claim L db data fault =
          (if exceeds then (Inl (ValidationError ''Claim amount exceeds policy coverage''), db)
           else case fault of
                  None \<Rightarrow> (Inr (r, 201), db\<lparr>claims := AList.update (claim_id r) r (claims db)\<rparr>)
                | Some t \<Rightarrow> (Inl (DatabaseError (''Database error: '' @ t)), db))"
    by (cases fault) (simp_all add: app_create_claim_def commit_then_simps)
qed

theorem create_claim_coverage_witness:
  "\<not> has_key (claims manager_p1) (claim_id c1)
   \<and> map_of (policies manager_p1) (claim_policy_id c1) = Some p1
   \<and> start_date p1 \<le> date c1 \<and> date c1 \<le> end_date p1
   \<and> amount c1 \<le> coverage_amount p1
   \<and> manager_create_claim manager_p1 c1 = (Inr (), manager_c1)
   \<and> \<not> amount (c1\<lparr>amount := 200000\<rparr>) \<le> coverage_amount p1
   \<and> manager_create_claim manager_p1 (c1\<lparr>amount := 200000\<rparr>)
       = (Inl (ValueError ''Claim exceeds policy coverage''), manager_p1)
   \<and> Claim_validate_input plain_lib body_c1 = Inr row_c1
   \<and> \<not> has_key (claims db_p1) (claim_id row_c1)
   \<and> map_of (policies db_p1) (claim_policy_id row_c1) = Some row_p1
   \<and> dec_less (coverage_amount row_p1) (amount row_c1) = Some False
   \<and> constructor_accepts Claim_columns body_c1
   \<and> app_create_claim plain_lib db_p1 body_c1 None = (Inr (row_c1, 201), db_c1)
   \<and> app_create_claim plain_lib db_p1 body_c2 None
       = (Inl (ValidationError ''Claim amount exceeds policy coverage''), db_p1)"
proof -
  have m1: "\<not> has_key (claims manager_p1) (claim_id c1)
      \<and> map_of (policies manager_p1) (claim_policy_id c1) = Some p1
      \<and> start_date p1 \<le> date c1 \<and> date c1 \<le> end_date p1"
    by (simp add: manager_p1_def c1_def p1_def has_key_def)
  have m2: "\<not> has_key (claims manager_p1) (claim_id (c1\<lparr>amount := 200000\<rparr>))
      \<and> map_of (policies manager_p1) (claim_policy_id (c1\<lparr>amount := 200000\<rparr>)) = Some p1
      \<and> start_date p1 \<le> date (c1\<lparr>amount := 200000\<rparr>)
      \<and> date (c1\<lparr>amount := 200000\<rparr>) \<le> end_date p1"
    by (simp add: manager_p1_def c1_def p1_def has_key_def)
  have a1: "Claim_validate_input plain_lib body_c1 = Inr row_c1
      \<and> \<not> has_key (claims db_p1) (claim_id row_c1)
      \<and> map_of (policies db_p1) (claim_policy_id row_c1) = Some row_p1
      \<and> dec_less (coverage_amount row_p1) (amount row_c1) = Some False
      \<and> constructor_accepts Claim_columns body_c1"
  proof -
    have "constructor_accepts Claim_columns body_c1"
      by (simp add: constructor_accepts_def Claim_columns_def body_c1_def)
    moreover have "\<not> has_key (claims db_p1) (claim_id row_c1)
        \<and> map_of (policies db_p1) (claim_policy_id row_c1) = Some row_p1"
      by (simp add: db_p1_def row_c1_def has_key_def)
    moreover have "dec_less (coverage_amount row_p1) (amount row_c1) = Some False"
      by (simp add: row_c1_def row_p1_def dec_value_def)
    ultimately show ?thesis using example_bodies(3) by simp
  qed
  have a2: "Claim_validate_input plain_lib body_c2 = Inr row_c2
      \<and> \<not> has_key (claims db_p1) (claim_id row_c2)
      \<and> map_of (policies db_p1) (claim_policy_id row_c2) = Some row_p1
      \<and> dec_less (coverage_amount row_p1) (amount row_c2) = Some True
      \<and> constructor_accepts Claim_columns body_c2"
  proof -
    have "constructor_accepts Claim_columns body_c2"
      by (simp add: constructor_accepts_def Claim_columns_def body_c2_def)
    moreover have "\<not> has_key (claims db_p1) (claim_id row_c2)
        \<and> map_of (policies db_p1) (claim_policy_id row_c2) = Some row_p1"
      by (simp add: db_p1_def row_c2_def has_key_def)
    moreover have "dec_less (coverage_amount row_p1) (amount row_c2) = Some True"
      by (simp add: row_c2_def row_p1_def dec_value_def)
    ultimately show ?thesis using example_bodies(4) by simp
  qed
  have le: "amount c1 \<le> coverage_amount p1" "\<not> amount (c1\<lparr>amount := 200000\<rparr>) \<le> coverage_amount p1"
    by (simp_all add: c1_def p1_def)
  have upd: "manager_p1\<lparr>claims := AList.update (claim_id c1) c1 (claims manager_p1)\<rparr> = manager_c1"
    "db_p1\<lparr>claims := AList.update (claim_id row_c1) row_c1 (claims db_p1)\<rparr> = db_c1"
    by (simp_all add: manager_p1_def manager_c1_def db_p1_def db_c1_def c1_def row_c1_def)
  from create_claim_coverage [where m = manager_p1 and c = c1 and p = p1] m1 le upd
  have r1: "manager_create_claim manager_p1 c1 = (Inr (), manager_c1)" by simp
  from create_claim_coverage [where m = manager_p1 and c = "c1\<lparr>amount := 200000\<rparr>" and p = p1]
    m2 le
  have r2: "manager_create_claim manager_p1 (c1\<lparr>amount := 200000\<rparr>)
       = (Inl (ValueError ''Claim exceeds policy coverage''), manager_p1)" by simp
  from create_claim_coverage [where L = plain_lib and data = body_c1 and r = row_c1
      and db = db_p1 and q = row_p1 and exceeds = False and fault = None] a1 upd
  have r3: "app_create_claim plain_lib db_p1 body_c1 None = (Inr (row_c1, 201), db_c1)" by simp
  from create_claim_coverage [where L = plain_lib and data = body_c2 and r = row_c2
      and db = db_p1 and q = row_p1 and exceeds = True and fault = None] a2
  have r4: "app_create_claim plain_lib db_p1 body_c2 None
       = (Inl (ValidationError ''Claim amount exceeds policy coverage''), db_p1)" by simp
  from m1 a1 le r1 r2 r3 r4 show ?thesis by simp
qed

subsection \<open>C2: deleting an entity that has dependents\<close>

text \<open>
  C2, as stated, fails in the application: the policyholder of the example has a policy
  and the policy has a claim, and both delete routes succeed and delete the dependents
  with the row.
\<close>

theorem app_delete_cascades_counterexample:
  "map_of (policies db_c1) ''p1'' = Some row_p1 \<and> policy_policyholder_id row_p1 = ''ph1''
   \<and> app_delete_policyholder db_c1 ''ph1'' None
       = (Inr (''Policyholder deleted successfully'', 200), db_init)
   \<and> map_of (claims db_c1) ''c1'' = Some row_c1 \<and> claim_policy_id row_c1 = ''p1''
   \<and> app_delete_policy db_c1 ''p1'' None = (Inr (''Policy deleted successfully'', 200), db_ph1)"
  by (simp add: app_delete_policyholder_def app_delete_policy_def commit_then_simps
      db_c1_def db_init_def db_ph1_def row_p1_def row_c1_def)

text \<open>
  C2, amended. The manager refuses to delete a policyholder that a stored policy refers to
  and a policy that a stored claim refers to, and leaves itself unchanged; when no dependent
  refers to the object it deletes it and nothing else. The delete routes of the application
  refuse nothing: when the commit succeeds, the policyholder is deleted together with its
  policies and their claims, and the policy together with its claims.
\<close>

theorem delete_with_dependents:
  "(has_key (policyholders m) pid \<longrightarrow>
      manager_delete_policyholder m pid =
        (if list_ex (\<lambda>p. policy_policyholder_id p = pid) (dict_values (policies m))
         then (Inl (ValueError ''Policyholder has existing policies''), m)
         else (Inr (), m\<lparr>policyholders := AList.delete pid (policyholders m)\<rparr>)))
   \<and> (has_key (policies m) qid \<longrightarrow>
      manager_delete_policy m qid =
        (if list_ex (\<lambda>c. claim_policy_id c = qid) (dict_values (claims m))
         then (Inl (ValueError ''Policy has existing claims''), m)
         else (Inr (), m\<lparr>policies := AList.delete qid (policies m)\<rparr>)))
   \<and> (has_key (policyholders db) pid' \<longrightarrow>
      fst (app_delete_policyholder db pid' None) = Inr (''Policyholder deleted successfully'', 200)
      \<and> \<not> has_key (policyholders (snd (app_delete_policyholder db pid' None))) pid'
      \<and> \<not> list_ex (\<lambda>p. policy_policyholder_id p = pid')
            (dict_values (policies (snd (app_delete_policyholder db pid' None))))
      \<and> (\<forall>(k, p) \<in> set (policies db). policy_policyholder_id p = pid' \<longrightarrow>
            \<not> list_ex (\<lambda>c. claim_policy_id c = k)
                (dict_values (claims (snd (app_delete_policyholder db pid' None))))))
   \<and> (has_key (policies db) qid' \<longrightarrow>
      fst (app_delete_policy db qid' None) = Inr (''Policy deleted successfully'', 200)
      \<and> \<not> has_key (policies (snd (app_delete_policy db qid' None))) qid'
      \<and> \<not> list_ex (\<lambda>c. claim_policy_id c = qid')
            (dict_values (claims (snd (app_delete_policy db qid' None)))))"
proof (intro conjI impI)
  assume "has_key (policyholders m) pid"
  then show "manager_delete_policyholder m pid =
        (if list_ex (\<lambda>p. policy_policyholder_id p = pid) (dict_values (policies m))
         then (Inl (ValueError ''Policyholder has existing policies''), m)
         else (Inr (), m\<lparr>policyholders := AList.delete pid (policyholders m)\<rparr>))"
    by (simp add: manager_delete_policyholder_def)
next
  assume "has_key (policies m) qid"
  then show "manager_delete_policy m qid =
        (if list_ex (\<lambda>c. claim_policy_id c = qid) (dict_values (claims m))
         then (Inl (ValueError ''Policy has existing claims''), m)
         else (Inr (), m\<lparr>policies := AList.delete qid (policies m)\<rparr>))"
    by (simp add: manager_delete_policy_def)
next
  assume h: "has_key (policyholders db) pid'"
  then obtain ph where ph: "map_of (policyholders db) pid' = Some ph"
    by (auto simp: has_key_def)
  let ?db' = "db\<lparr>policyholders := AList.delete pid' (policyholders db),
      policies := filter (\<lambda>(k, p). policy_policyholder_id p \<noteq> pid') (policies db),
      claims := filter (\<lambda>(k, c). claim_policy_id c \<notin>
          set (map fst (filter (\<lambda>(k, p). policy_policyholder_id p = pid') (policies db))))
        (claims db)\<rparr>"
  have r: "app_delete_policyholder db pid' None
      = (Inr (''Policyholder deleted successfully'', 200), ?db')"
    using ph by (simp add: app_delete_policyholder_def commit_then_simps)
  show "fst (app_delete_policyholder db pid' None)
      = Inr (''Policyholder deleted successfully'', 200)"
    by (simp add: r)
  show "\<not> has_key (policyholders (snd (app_delete_policyholder db pid' None))) pid'"
    by (simp add: r has_key_delete)
  show "\<not> list_ex (\<lambda>p. policy_policyholder_id p = pid')
            (dict_values (policies (snd (app_delete_policyholder db pid' None))))"
    by (simp add: r list_ex_filter_out)
  show "\<forall>(k, p) \<in> set (policies db). policy_policyholder_id p = pid' \<longrightarrow>
            \<not> list_ex (\<lambda>c. claim_policy_id c = k)
                (dict_values (claims (snd (app_delete_policyholder db pid' None))))"
    unfolding r by (force simp: list_ex_iff dict_values_def)
next
  assume h: "has_key (policies db) qid'"
  then obtain p where p: "map_of (policies db) qid' = Some p"
    by (auto simp: has_key_def)
  have r: "app_delete_policy db qid' None
      = (Inr (''Policy deleted successfully'', 200),
         db\<lparr>policies := AList.delete qid' (policies db),
            claims := filter (\<lambda>(k, c). claim_policy_id c \<noteq> qid') (claims db)\<rparr>)"
    using p by (simp add: app_delete_policy_def commit_then_simps)
  show "fst (app_delete_policy db qid' None) = Inr (''Policy deleted successfully'', 200)"
    by (simp add: r)
  show "\<not> has_key (policies (snd (app_delete_policy db qid' None))) qid'"
    by (simp add: r has_key_delete)
  show "\<not> list_ex (\<lambda>c. claim_policy_id c = qid')
            (dict_values (claims (snd (app_delete_policy db qid' None))))"
    by (simp add: r list_ex_filter_out)
qed

theorem delete_with_dependents_witness:
  "has_key (policyholders manager_c1) ''ph1''
   \<and> manager_delete_policyholder manager_c1 ''ph1''
       = (Inl (ValueError ''Policyholder has existing policies''), manager_c1)
   \<and> has_key (policies manager_c1) ''p1''
   \<and> manager_delete_policy manager_c1 ''p1''
       = (Inl (ValueError ''Policy has existing claims''), manager_c1)
   \<and> manager_delete_claim manager_c1 ''c1'' = (Inr (), manager_p1)
   \<and> has_key (policies manager_p1) ''p1''
   \<and> manager_delete_policy manager_p1 ''p1'' = (Inr (), manager_ph1)
   \<and> has_key (policyholders manager_ph1) ''ph1''
   \<and> manager_delete_policyholder manager_ph1 ''ph1'' = (Inr (), manager_init)
   \<and> has_key (policyholders db_c1) ''ph1''
   \<and> fst (app_delete_policyholder db_c1 ''ph1'' None)
       = Inr (''Policyholder deleted successfully'', 200)
   \<and> (''p1'', row_p1) \<in> set (policies db_c1) \<and> policy_policyholder_id row_p1 = ''ph1''
   \<and> \<not> list_ex (\<lambda>c. claim_policy_id c = ''p1'')
         (dict_values (claims (snd (app_delete_policyholder db_c1 ''ph1'' None))))
   \<and> has_key (policies db_c1) ''p1''
   \<and> \<not> has_key (policies (snd (app_delete_policy db_c1 ''p1'' None))) ''p1''"
proof -
  have k: "has_key (policyholders manager_c1) ''ph1''" "has_key (policies manager_c1) ''p1''"
    "has_key (policies manager_p1) ''p1''" "has_key (policyholders manager_ph1) ''ph1''"
    "has_key (policyholders db_c1) ''ph1''" "has_key (policies db_c1) ''p1''"
    by (simp_all add: has_key_def manager_c1_def manager_p1_def manager_ph1_def db_c1_def)
  have d: "list_ex (\<lambda>p. policy_policyholder_id p = ''ph1'') (dict_values (policies manager_c1))"
    "list_ex (\<lambda>c. claim_policy_id c = ''p1'') (dict_values (claims manager_c1))"
    "\<not> list_ex (\<lambda>c. claim_policy_id c = ''p1'') (dict_values (claims manager_p1))"
    "\<not> list_ex (\<lambda>p. policy_policyholder_id p = ''ph1'') (dict_values (policies manager_ph1))"
    by (simp_all add: dict_values_def manager_c1_def manager_p1_def manager_ph1_def p1_def c1_def)
  have u: "manager_p1\<lparr>policies := AList.delete ''p1'' (policies manager_p1)\<rparr> = manager_ph1"
    "manager_ph1\<lparr>policyholders := AList.delete ''ph1'' (policyholders manager_ph1)\<rparr>
       = manager_init"
    by (simp_all add: manager_p1_def manager_ph1_def manager_init_def)
  have e: "(''p1'', row_p1) \<in> set (policies db_c1)" "policy_policyholder_id row_p1 = ''ph1''"
    by (simp_all add: db_c1_def row_p1_def)
  have c: "manager_delete_claim manager_c1 ''c1'' = (Inr (), manager_p1)"
    by (simp add: manager_delete_claim_def manager_c1_def manager_p1_def has_key_def)
  note t1 = delete_with_dependents [where m = manager_c1 and pid = "''ph1''" and qid = "''p1''"
      and db = db_c1 and pid' = "''ph1''" and qid' = "''p1''"]
  note t2 = delete_with_dependents [where m = manager_p1 and qid = "''p1''"]
  note t3 = delete_with_dependents [where m = manager_ph1 and pid = "''ph1''"]
  have r1: "manager_delete_policyholder manager_c1 ''ph1''
       = (Inl (ValueError ''Policyholder has existing policies''), manager_c1)"
    using t1 k d by simp
  have r2: "manager_delete_policy manager_c1 ''p1''
       = (Inl (ValueError ''Policy has existing claims''), manager_c1)"
    using t1 k d by simp
  have r3: "manager_delete_policy manager_p1 ''p1'' = (Inr (), manager_ph1)"
    using t2 k d u by simp
  have r4: "manager_delete_policyholder manager_ph1 ''ph1'' = (Inr (), manager_init)"
    using t3 k d u by simp
  have r5: "fst (app_delete_policyholder db_c1 ''ph1'' None)
       = Inr (''Policyholder deleted successfully'', 200)"
    using t1 k by blast
  have "\<forall>(k, p) \<in> set (policies db_c1). policy_policyholder_id p = ''ph1'' \<longrightarrow>
            \<not> list_ex (\<lambda>c. claim_policy_id c = k)
                (dict_values (claims (snd (app_delete_policyholder db_c1 ''ph1'' None))))"
    using t1 k by blast
  with e have r6: "\<not> list_ex (\<lambda>c. claim_policy_id c = ''p1'')
         (dict_values (claims (snd (app_delete_policyholder db_c1 ''ph1'' None))))"
    by blast
  have r7: "\<not> has_key (policies (snd (app_delete_policy db_c1 ''p1'' None))) ''p1''"
    using t1 k by blast
  from k e c r1 r2 r3 r4 r5 r6 r7 show ?thesis by simp
qed

subsection \<open>C3: a failed operation leaves the store as it was\<close>

text \<open>
  C3. An update of the manager that meets a name which is not an attribute raises, and the
  fields assigned before it stay assigned: the stored policyholder has the new name
  although the call failed.
\<close>

theorem manager_update_policyholder_partial:
  "manager_update_policyholder (cpython_object ''Policyholder'') manager_ph1 ''ph1''
       [(''name'', Str ''Bob''), (''foo'', Str ''bar'')]
     = (Inl (AttributeError ''Invalid field: foo''),
        manager_ph1\<lparr>policyholders := [(''ph1'', ph1\<lparr>name := ''Bob''\<rparr>)]\<rparr>)
   \<and> manager_ph1\<lparr>policyholders := [(''ph1'', ph1\<lparr>name := ''Bob''\<rparr>)]\<rparr> \<noteq> manager_ph1"
  by (simp add: manager_update_policyholder_def manager_ph1_def hasattr_policyholder_def
      setattr_policyholder_def ph1_def cpython_object_def object_names_def)

text \<open>
  The other operations keep the claim: a handler of the application that raises returns
  the database it was given, and so do the create and delete methods of the manager.
\<close>

lemma app_failure_leaves_database:
  "app_create_policyholder db data fault = (Inl e, db') \<Longrightarrow> db' = db"
  "app_update_policyholder db k data fault = (Inl e, db') \<Longrightarrow> db' = db"
  "app_delete_policyholder db k fault = (Inl e, db') \<Longrightarrow> db' = db"
  "app_create_policy L db data fault = (Inl e, db') \<Longrightarrow> db' = db"
  "app_delete_policy db k fault = (Inl e, db') \<Longrightarrow> db' = db"
  "app_create_claim L db data fault = (Inl e, db') \<Longrightarrow> db' = db"
  "app_delete_claim db k fault = (Inl e, db') \<Longrightarrow> db' = db"
  by (auto simp: app_create_policyholder_def app_update_policyholder_def
      app_delete_policyholder_def app_create_policy_def app_delete_policy_def
      app_create_claim_def app_delete_claim_def Let_def
      split: sum.splits option.splits if_splits bool.splits dest: commit_then_failure)



lemma manager_create_delete_failure:
  "manager_create_policyholder m ph = (Inl e, m') \<Longrightarrow> m' = m"
  "manager_delete_policyholder m k = (Inl e, m') \<Longrightarrow> m' = m"
  "manager_create_policy m p = (Inl e, m') \<Longrightarrow> m' = m"
  "manager_delete_policy m k = (Inl e, m') \<Longrightarrow> m' = m"
  "manager_create_claim m c = (Inl e, m') \<Longrightarrow> m' = m"
  "manager_delete_claim m k = (Inl e, m') \<Longrightarrow> m' = m"
  by (auto simp: manager_create_policyholder_def manager_delete_policyholder_def
      manager_create_policy_def manager_delete_policy_def manager_create_claim_def
      manager_delete_claim_def split: option.splits if_splits)

subsection \<open>C4: the dates of a new policy\<close>

text \<open>
  C4. The manager refuses a policy only when its start date is after its end date: a policy
  that starts and ends on the same day is stored, where the claim (and
  \<^verbatim>\<open>validate_date_range\<close> of \<^verbatim>\<open>app.py\<close>) asks for a failure.
\<close>

theorem manager_create_policy_equal_dates:
  "manager_create_policy manager_ph1 (p1\<lparr>end_date := (2024, 1, 1)\<rparr>)
     = (Inr (), manager_ph1\<lparr>policies := [(''p1'', p1\<lparr>end_date := (2024, 1, 1)\<rparr>)]\<rparr>)"
  by (simp add: manager_create_policy_def manager_ph1_def has_key_def p1_def)

text \<open>
  In the application the claim holds: \<open>validate_date_range\<close> accepts exactly the pairs
  with the start before the end, and every policy it creates has such dates. The manager
  accepts the pairs with the start not after the end.
\<close>

lemma validate_date_range_iff:
  "validate_date_range start end = Inr () \<longleftrightarrow> start < end"
  "validate_date_range start end = Inl (ValidationError ''End date must be after start date'')
     \<longleftrightarrow> end \<le> start"
  by (auto simp: validate_date_range_def)

lemma Policy_validate_input_dates:
  "Policy_validate_input L data = Inr p \<Longrightarrow> start_date p < end_date p"
  by (auto simp: Policy_validate_input_def bind_err_def validate_date_range_def
      split: option.splits sum.splits if_splits)

lemma app_create_policy_dates:
  assumes "app_create_policy L db data fault = (Inr (p, st), db')"
  shows "start_date p < end_date p"
  using assms
  by (auto simp: app_create_policy_def commit_then_def safe_commit_def
      split: sum.splits option.splits if_splits dest: Policy_validate_input_dates)

lemma manager_create_policy_dates:
  "manager_create_policy m p = (Inr (), m') \<Longrightarrow> start_date p \<le> end_date p"
  by (auto simp: manager_create_policy_def split: if_splits)

subsection \<open>C5: unknown fields of an update\<close>




subsection \<open>C6: an update checks again what depends on the fields it touches\<close>








subsection \<open>C7: creating an entity whose identifier is stored\<close>

text \<open>
  C7, as stated, fails: creating a policyholder whose identifier is stored raises the
  \<^verbatim>\<open>ValidationError\<close> that an invalid field raises, and \<open>handle_error\<close> answers both with
  \<^verbatim>\<open>Validation error\<close> and status 400; with a stored identifier and an invalid e-mail
  address the error is the one of the address.
\<close>

theorem create_duplicate_no_conflict_counterexample:
  "has_key (policyholders db_ph1) ''ph1''
   \<and> app_create_policyholder db_ph1 body_ph1 None
       = (Inl (ValidationError ''Policyholder ID already exists''), db_ph1)
   \<and> handle_error (ValidationError ''Policyholder ID already exists'') = (''Validation error'', 400)
   \<and> app_create_policyholder db_ph1 body_ph1_bad_email None
       = (Inl (ValidationError ''Invalid email format''), db_ph1)
   \<and> handle_error (ValidationError ''Invalid email format'') = (''Validation error'', 400)"
  by (simp add: app_create_policyholder_def Policyholder_validate_input_def body_ph1_def
      body_ph1_bad_email_def db_ph1_def row_ph1_def validator_defs handle_error_def)

text \<open>
  C7, amended. Creating an entity whose identifier is stored fails and leaves the store as
  it was. The manager raises \<^verbatim>\<open>ValueError\<close> whatever the other fields are. The three
  create routes of the application look at the body first: an empty body raises
  \<^verbatim>\<open>ValidationError\<close> for the missing input, a body that fails the validation of its model
  raises the error of that validation, and a body that passes it and has a stored
  identifier raises \<^verbatim>\<open>ValidationError\<close> with the message that the identifier already
  exists; in each case the database is as before. \<open>handle_error\<close> answers every
  \<^verbatim>\<open>ValidationError\<close> as a validation error with status 400.
\<close>

theorem create_duplicate_id:
  "(has_key (policyholders m) (policyholder_id ph)
      \<longrightarrow> manager_create_policyholder m ph = (Inl (ValueError ''Policyholder ID already exists''), m))
   \<and> (has_key (policies m) (policy_id p)
      \<longrightarrow> manager_create_policy m p = (Inl (ValueError ''Policy ID already exists''), m))
   \<and> (has_key (claims m) (claim_id c)
      \<longrightarrow> manager_create_claim m c = (Inl (ValueError ''Claim ID already exists''), m))
   \<and> (data = []
      \<longrightarrow> app_create_policyholder db data fault
            = (Inl (ValidationError ''No input data provided''), db))
   \<and> (data \<noteq> [] \<and> Policyholder_validate_input data = Inl e
      \<longrightarrow> app_create_policyholder db data fault = (Inl e, db))
   \<and> (Policyholder_validate_input data = Inr ph' \<and> has_key (policyholders db) (policyholder_id ph')
      \<longrightarrow> app_create_policyholder db data fault
            = (Inl (ValidationError ''Policyholder ID already exists''), db))
   \<and> (data = []
      \<longrightarrow> app_create_policy L db data fault
            = (Inl (ValidationError ''No input data provided''), db))
   \<and> (data \<noteq> [] \<and> Policy_validate_input L data = Inl e
      \<longrightarrow> app_create_policy L db data fault = (Inl e, db))
   \<and> (Policy_validate_input L data = Inr p' \<and> has_key (policies db) (policy_id p')
      \<longrightarrow> app_create_policy L db data fault
            = (Inl (ValidationError ''Policy ID already exists''), db))
   \<and> (data = []
      \<longrightarrow> app_create_claim L db data fault
            = (Inl (ValidationError ''No input data provided''), db))
   \<and> (data \<noteq> [] \<and> Claim_validate_input L data = Inl e
      \<longrightarrow> app_create_claim L db data fault = (Inl e, db))
   \<and> (Claim_validate_input L data = Inr c' \<and> has_key (claims db) (claim_id c')
      \<longrightarrow> app_create_claim L db data fault
            = (Inl (ValidationError ''Claim ID already exists''), db))
   \<and> handle_error (ValidationError msg) = (''Validation error'', 400)"
proof (intro conjI impI)
  assume "has_key (policyholders m) (policyholder_id ph)"
  then show "manager_create_policyholder m ph = (Inl (ValueError ''Policyholder ID already exists''), m)"
    by (simp add: manager_create_policyholder_def)
next
  assume "has_key (policies m) (policy_id p)"
  then show "manager_create_policy m p = (Inl (ValueError ''Policy ID already exists''), m)"
    by (simp add: manager_create_policy_def)
next
  assume "has_key (claims m) (claim_id c)"
  then show "manager_create_claim m c = (Inl (ValueError ''Claim ID already exists''), m)"
    by (simp add: manager_create_claim_def)
next
  assume "data = []"
  then show "app_create_policyholder db data fault
            = (Inl (ValidationError ''No input data provided''), db)"
    by (simp add: app_create_policyholder_def)
next
  assume "data \<noteq> [] \<and> Policyholder_validate_input data = Inl e"
  then show "app_create_policyholder db data fault = (Inl e, db)"
    by (simp add: app_create_policyholder_def)
next
  assume "Policyholder_validate_input data = Inr ph' \<and> has_key (policyholders db) (policyholder_id ph')"
  then show "app_create_policyholder db data fault
            = (Inl (ValidationError ''Policyholder ID already exists''), db)"
    by (auto simp: app_create_policyholder_def dest: Policyholder_validate_input_nonempty)
next
  assume "data = []"
  then show "app_create_policy L db data fault
            = (Inl (ValidationError ''No input data provided''), db)"
    by (simp add: app_create_policy_def)
next
  assume "data \<noteq> [] \<and> Policy_validate_input L data = Inl e"
  then show "app_create_policy L db data fault = (Inl e, db)"
    by (simp add: app_create_policy_def)
next
  assume "Policy_validate_input L data = Inr p' \<and> has_key (policies db) (policy_id p')"
  then show "app_create_policy L db data fault
            = (Inl (ValidationError ''Policy ID already exists''), db)"
    by (auto simp: app_create_policy_def dest: Policy_validate_input_nonempty)
next
  assume "data = []"
  then show "app_create_claim L db data fault
            = (Inl (ValidationError ''No input data provided''), db)"
    by (simp add: app_create_claim_def)
next
  assume "data \<noteq> [] \<and> Claim_validate_input L data = Inl e"
  then show "app_create_claim L db data fault = (Inl e, db)"
    by (simp add: app_create_claim_def)
next
  assume "Claim_validate_input L data = Inr c' \<and> has_key (claims db) (claim_id c')"
  then show "app_create_claim L db data fault
            = (Inl (ValidationError ''Claim ID already exists''), db)"
    by (auto simp: app_create_claim_def dest: Claim_validate_input_nonempty)
next
  show "handle_error (ValidationError msg) = (''Validation error'', 400)"
    by (simp add: handle_error_def)
qed

theorem create_duplicate_id_witness:
  "has_key (policyholders manager_c1) (policyholder_id ph1)
   \<and> manager_create_policyholder manager_c1 ph1
       = (Inl (ValueError ''Policyholder ID already exists''), manager_c1)
   \<and> has_key (policies manager_c1) (policy_id p1)
   \<and> manager_create_policy manager_c1 p1
       = (Inl (ValueError ''Policy ID already exists''), manager_c1)
   \<and> has_key (claims manager_c1) (claim_id c1)
   \<and> manager_create_claim manager_c1 c1
       = (Inl (ValueError ''Claim ID already exists''), manager_c1)
   \<and> app_create_policyholder db_c1 [] None
       = (Inl (ValidationError ''No input data provided''), db_c1)
   \<and> body_ph1_bad_email \<noteq> []
   \<and> Policyholder_validate_input body_ph1_bad_email = Inl (ValidationError ''Invalid email format'')
   \<and> app_create_policyholder db_c1 body_ph1_bad_email None = (Inl (ValidationError ''Invalid email format''), db_c1)
   \<and> Policyholder_validate_input body_ph1 = Inr row_ph1
   \<and> has_key (policyholders db_c1) (policyholder_id row_ph1)
   \<and> app_create_policyholder db_c1 body_ph1 None
       = (Inl (ValidationError ''Policyholder ID already exists''), db_c1)
   \<and> app_create_policy plain_lib db_c1 [] None
       = (Inl (ValidationError ''No input data provided''), db_c1)
   \<and> body_p1_bad_dates \<noteq> []
   \<and> Policy_validate_input plain_lib body_p1_bad_dates = Inl (ValidationError ''End date must be after start date'')
   \<and> app_create_policy plain_lib db_c1 body_p1_bad_dates None = (Inl (ValidationError ''End date must be after start date''), db_c1)
   \<and> Policy_validate_input plain_lib body_p1 = Inr row_p1
   \<and> has_key (policies db_c1) (policy_id row_p1)
   \<and> app_create_policy plain_lib db_c1 body_p1 None
       = (Inl (ValidationError ''Policy ID already exists''), db_c1)
   \<and> app_create_claim plain_lib db_c1 [] None
       = (Inl (ValidationError ''No input data provided''), db_c1)
   \<and> body_c1_bad_status \<noteq> []
   \<and> Claim_validate_input plain_lib body_c1_bad_status = Inl (ValidationError ''Status must be one of: Pending, Approved, Rejected'')
   \<and> app_create_claim plain_lib db_c1 body_c1_bad_status None = (Inl (ValidationError ''Status must be one of: Pending, Approved, Rejected''), db_c1)
   \<and> Claim_validate_input plain_lib body_c1 = Inr row_c1
   \<and> has_key (claims db_c1) (claim_id row_c1)
   \<and> app_create_claim plain_lib db_c1 body_c1 None
       = (Inl (ValidationError ''Claim ID already exists''), db_c1)"
proof -
  have m0: "has_key (policyholders manager_c1) (policyholder_id ph1)"
    by (simp add: has_key_def manager_c1_def ph1_def)
  have rm0: "manager_create_policyholder manager_c1 ph1
       = (Inl (ValueError ''Policyholder ID already exists''), manager_c1)"
    by (rule create_duplicate_id [where m = manager_c1 and ph = ph1, THEN conjunct1, THEN mp])
      (rule m0)
  have m1: "has_key (policies manager_c1) (policy_id p1)"
    by (simp add: has_key_def manager_c1_def p1_def)
  have rm1: "manager_create_policy manager_c1 p1
       = (Inl (ValueError ''Policy ID already exists''), manager_c1)"
    by (rule create_duplicate_id [where m = manager_c1 and p = p1, THEN conjunct2, THEN conjunct1, THEN mp])
      (rule m1)
  have m2: "has_key (claims manager_c1) (claim_id c1)"
    by (simp add: has_key_def manager_c1_def c1_def)
  have rm2: "manager_create_claim manager_c1 c1
       = (Inl (ValueError ''Claim ID already exists''), manager_c1)"
    by (rule create_duplicate_id [where m = manager_c1 and c = c1, THEN conjunct2, THEN conjunct2, THEN conjunct1, THEN mp])
      (rule m2)
  have re0: "app_create_policyholder db_c1 [] None
       = (Inl (ValidationError ''No input data provided''), db_c1)"
    by (rule create_duplicate_id [where db = db_c1 and data = "[]" and fault = None,
          THEN conjunct2, THEN conjunct2, THEN conjunct2, THEN conjunct1, THEN mp]) (rule refl)
  have i0: "body_ph1_bad_email \<noteq> []" "Policyholder_validate_input body_ph1_bad_email = Inl (ValidationError ''Invalid email format'')"
    by (simp_all add: Policyholder_validate_input_def body_ph1_bad_email_def validator_defs)
  have ri0: "app_create_policyholder db_c1 body_ph1_bad_email None = (Inl (ValidationError ''Invalid email format''), db_c1)"
    by (rule create_duplicate_id [where db = db_c1 and data = body_ph1_bad_email and fault = None
          and e = "ValidationError ''Invalid email format''", THEN conjunct2, THEN conjunct2, THEN conjunct2, THEN conjunct2, THEN conjunct1, THEN mp])
      (intro conjI i0)
  have d0: "has_key (policyholders db_c1) (policyholder_id row_ph1)"
    by (simp add: has_key_def db_c1_def row_ph1_def)
  have rd0: "app_create_policyholder db_c1 body_ph1 None
       = (Inl (ValidationError ''Policyholder ID already exists''), db_c1)"
    by (rule create_duplicate_id [where db = db_c1 and data = body_ph1 and fault = None
          and ph' = row_ph1, THEN conjunct2, THEN conjunct2, THEN conjunct2, THEN conjunct2, THEN conjunct2, THEN conjunct1, THEN mp])
      (intro conjI example_bodies(1) d0)
  have re1: "app_create_policy plain_lib db_c1 [] None
       = (Inl (ValidationError ''No input data provided''), db_c1)"
    by (rule create_duplicate_id [where db = db_c1 and data = "[]" and fault = None and L = plain_lib,
          THEN conjunct2, THEN conjunct2, THEN conjunct2, THEN conjunct2, THEN conjunct2, THEN conjunct2, THEN conjunct1, THEN mp]) (rule refl)
  have i1: "body_p1_bad_dates \<noteq> []" "Policy_validate_input plain_lib body_p1_bad_dates = Inl (ValidationError ''End date must be after start date'')"
    by (simp_all add: Policy_validate_input_def body_p1_bad_dates_def validator_defs)
  have ri1: "app_create_policy plain_lib db_c1 body_p1_bad_dates None = (Inl (ValidationError ''End date must be after start date''), db_c1)"
    by (rule create_duplicate_id [where db = db_c1 and data = body_p1_bad_dates and fault = None and L = plain_lib
          and e = "ValidationError ''End date must be after start date''", THEN conjunct2, THEN conjunct2, THEN conjunct2, THEN conjunct2, THEN conjunct2, THEN conjunct2, THEN conjunct2, THEN conjunct1, THEN mp])
      (intro conjI i1)
  have d1: "has_key (policies db_c1) (policy_id row_p1)"
    by (simp add: has_key_def db_c1_def row_p1_def)
  have rd1: "app_create_policy plain_lib db_c1 body_p1 None
       = (Inl (ValidationError ''Policy ID already exists''), db_c1)"
    by (rule create_duplicate_id [where db = db_c1 and data = body_p1 and fault = None and L = plain_lib
          and p' = row_p1, THEN conjunct2, THEN conjunct2, THEN conjunct2, THEN conjunct2, THEN conjunct2, THEN conjunct2, THEN conjunct2, THEN conjunct2, THEN conjunct1, THEN mp])
      (intro conjI example_bodies(2) d1)
  have re2: "app_create_claim plain_lib db_c1 [] None
       = (Inl (ValidationError ''No input data provided''), db_c1)"
    by (rule create_duplicate_id [where db = db_c1 and data = "[]" and fault = None and L = plain_lib,
          THEN conjunct2, THEN conjunct2, THEN conjunct2, THEN conjunct2, THEN conjunct2, THEN conjunct2, THEN conjunct2, THEN conjunct2, THEN conjunct2, THEN conjunct1, THEN mp]) (rule refl)
  have i2: "body_c1_bad_status \<noteq> []" "Claim_validate_input plain_lib body_c1_bad_status = Inl (ValidationError ''Status must be one of: Pending, Approved, Rejected'')"
    by (simp_all add: Claim_validate_input_def body_c1_bad_status_def validator_defs)
  have ri2: "app_create_claim plain_lib db_c1 body_c1_bad_status None = (Inl (ValidationError ''Status must be one of: Pending, Approved, Rejected''), db_c1)"
    by (rule create_duplicate_id [where db = db_c1 and data = body_c1_bad_status and fault = None and L = plain_lib
          and e = "ValidationError ''Status must be one of: Pending, Approved, Rejected''", THEN conjunct2, THEN conjunct2, THEN conjunct2, THEN conjunct2, THEN conjunct2, THEN conjunct2, THEN conjunct2, THEN conjunct2, THEN conjunct2, THEN conjunct2, THEN conjunct1, THEN mp])
      (intro conjI i2)
  have d2: "has_key (claims db_c1) (claim_id row_c1)"
    by (simp add: has_key_def db_c1_def row_c1_def)
  have rd2: "app_create_claim plain_lib db_c1 body_c1 None
       = (Inl (ValidationError ''Claim ID already exists''), db_c1)"
    by (rule create_duplicate_id [where db = db_c1 and data = body_c1 and fault = None and L = plain_lib
          and c' = row_c1, THEN conjunct2, THEN conjunct2, THEN conjunct2, THEN conjunct2, THEN conjunct2, THEN conjunct2, THEN conjunct2, THEN conjunct2, THEN conjunct2, THEN conjunct2, THEN conjunct2, THEN conjunct1, THEN mp])
      (intro conjI example_bodies(3) d2)
  show ?thesis
    by (intro conjI m0 rm0 m1 rm1 m2 rm2 re0 i0(1) i0(2) ri0 example_bodies(1) d0 rd0 re1 i1(1) i1(2) ri1 example_bodies(2) d1 rd1 re2 i2(1) i2(2) ri2 example_bodies(3) d2 rd2)
qed

subsection \<open>C8: reading an entity by its identifier\<close>

text \<open>
  C8, as stated, fails in the manager: for an identifier that is not stored
  \<open>get_policyholder\<close> raises nothing and returns \<^verbatim>\<open>None\<close>.
\<close>

theorem get_absent_returns_None_counterexample:
  "\<not> has_key (policyholders manager_init) ''ph1''
   \<and> manager_get_policyholder manager_init ''ph1'' = (Inr None, manager_init)"
  by (simp add: manager_get_policyholder_def manager_init_def has_key_def)

text \<open>
  C8, amended. The GET routes of the application raise \<^verbatim>\<open>ResourceNotFoundError\<close>, which
  \<open>handle_error\<close> answers with status 404, for an identifier that is not stored, and
  otherwise answer with the fields of the stored row and status 200; the database is as
  before. The \<open>get\<close> methods of the manager return
  \<^verbatim>\<open>None\<close> for an identifier that is not stored and the stored object otherwise.
\<close>

theorem get_by_id:
  "(\<not> has_key (policyholders db) k \<longrightarrow>
      app_get_policyholder db k = (Inl (ResourceNotFoundError ''Policyholder not found''), db))
   \<and> (map_of (policyholders db) k = Some ph \<longrightarrow> app_get_policyholder db k = (Inr (ph, 200), db))
   \<and> (\<not> has_key (policies db) k \<longrightarrow>
      app_get_policy db k = (Inl (ResourceNotFoundError ''Policy not found''), db))
   \<and> (map_of (policies db) k = Some p \<longrightarrow> app_get_policy db k = (Inr (p, 200), db))
   \<and> (\<not> has_key (claims db) k \<longrightarrow>
      app_get_claim db k = (Inl (ResourceNotFoundError ''Claim not found''), db))
   \<and> (map_of (claims db) k = Some c \<longrightarrow> app_get_claim db k = (Inr (c, 200), db))
   \<and> manager_get_policyholder m k = (Inr (map_of (policyholders m) k), m)
   \<and> manager_get_policy m k = (Inr (map_of (policies m) k), m)
   \<and> manager_get_claim m k = (Inr (map_of (claims m) k), m)
   \<and> (\<not> has_key (policyholders m) k \<longrightarrow> manager_get_policyholder m k = (Inr None, m))
   \<and> (\<not> has_key (policies m) k \<longrightarrow> manager_get_policy m k = (Inr None, m))
   \<and> (\<not> has_key (claims m) k \<longrightarrow> manager_get_claim m k = (Inr None, m))
   \<and> handle_error (ResourceNotFoundError msg) = (''Resource not found'', 404)"
  by (auto simp: app_get_policyholder_def app_get_policy_def app_get_claim_def
      manager_get_policyholder_def manager_get_policy_def manager_get_claim_def has_key_def
      handle_error_def)

theorem get_by_id_witness:
  "\<not> has_key (policyholders db_c1) ''c1''
   \<and> app_get_policyholder db_c1 ''c1''
       = (Inl (ResourceNotFoundError ''Policyholder not found''), db_c1)
   \<and> \<not> has_key (policies db_c1) ''c1''
   \<and> app_get_policy db_c1 ''c1'' = (Inl (ResourceNotFoundError ''Policy not found''), db_c1)
   \<and> map_of (claims db_c1) ''c1'' = Some row_c1
   \<and> app_get_claim db_c1 ''c1'' = (Inr (row_c1, 200), db_c1)
   \<and> \<not> has_key (policyholders manager_c1) ''c1''
   \<and> manager_get_policyholder manager_c1 ''c1'' = (Inr None, manager_c1)
   \<and> \<not> has_key (policies manager_c1) ''c1''
   \<and> manager_get_policy manager_c1 ''c1'' = (Inr None, manager_c1)
   \<and> manager_get_claim manager_c1 ''c1'' = (Inr (Some c1), manager_c1)
   \<and> map_of (policyholders db_c1) ''ph1'' = Some row_ph1
   \<and> app_get_policyholder db_c1 ''ph1'' = (Inr (row_ph1, 200), db_c1)
   \<and> map_of (policies db_c1) ''p1'' = Some row_p1
   \<and> app_get_policy db_c1 ''p1'' = (Inr (row_p1, 200), db_c1)
   \<and> \<not> has_key (claims db_c1) ''p1''
   \<and> app_get_claim db_c1 ''p1'' = (Inl (ResourceNotFoundError ''Claim not found''), db_c1)
   \<and> \<not> has_key (claims manager_c1) ''p1''
   \<and> manager_get_claim manager_c1 ''p1'' = (Inr None, manager_c1)"
proof -
  have h: "\<not> has_key (policyholders db_c1) ''c1''" "\<not> has_key (policies db_c1) ''c1''"
    "map_of (claims db_c1) ''c1'' = Some row_c1" "\<not> has_key (policyholders manager_c1) ''c1''"
    "\<not> has_key (policies manager_c1) ''c1''" "map_of (claims manager_c1) ''c1'' = Some c1"
    "map_of (policyholders db_c1) ''ph1'' = Some row_ph1"
    "map_of (policies db_c1) ''p1'' = Some row_p1" "\<not> has_key (claims db_c1) ''p1''"
    "\<not> has_key (claims manager_c1) ''p1''"
    by (simp_all add: has_key_def db_c1_def manager_c1_def)
  note t1 = get_by_id [where db = db_c1 and k = "''c1''" and c = row_c1 and m = manager_c1]
  note t2 = get_by_id [where db = db_c1 and k = "''ph1''" and ph = row_ph1]
  note t3 = get_by_id [where db = db_c1 and k = "''p1''" and p = row_p1 and m = manager_c1]
  from h t1 t2 t3 show ?thesis unfolding has_key_def by simp
qed

text \<open>
  What a successful create stored is what the read returns.
\<close>

lemma manager_create_then_get:
  "manager_create_policyholder m ph = (Inr (), m') \<Longrightarrow>
     manager_get_policyholder m' (policyholder_id ph) = (Inr (Some ph), m')"
  "manager_create_policy m p = (Inr (), m') \<Longrightarrow>
     manager_get_policy m' (policy_id p) = (Inr (Some p), m')"
  "manager_create_claim m c = (Inr (), m') \<Longrightarrow>
     manager_get_claim m' (claim_id c) = (Inr (Some c), m')"
  by (auto simp: manager_create_policyholder_def manager_create_policy_def
      manager_create_claim_def manager_get_policyholder_def manager_get_policy_def
      manager_get_claim_def AList.update_conv' split: option.splits if_splits)

lemma app_create_then_get:
  "app_create_policyholder db data fault = (Inr (ph, st), db') \<Longrightarrow>
     app_get_policyholder db' (policyholder_id ph) = (Inr (ph, 200), db')"
  "app_create_policy L db data fault = (Inr (p, st), db') \<Longrightarrow>
     app_get_policy db' (policy_id p) = (Inr (p, 200), db')"
  "app_create_claim L db data fault = (Inr (c, st), db') \<Longrightarrow>
     app_get_claim db' (claim_id c) = (Inr (c, 200), db')"
  by (auto simp: app_create_policyholder_def app_create_policy_def app_create_claim_def
      app_get_policyholder_def app_get_policy_def app_get_claim_def commit_then_def
      safe_commit_def AList.update_conv'
      split: sum.splits option.splits if_splits bool.splits)

subsection \<open>C9: the validation of an amount\<close>

text \<open>
  C9, as stated, fails: the text \<^verbatim>\<open>1.234\<close> is converted to a decimal with three
  fractional digits, and \<open>validate_amount\<close> returns that decimal as it is.
\<close>

theorem validate_amount_unquantised_counterexample:
  "Decimal_str plain_lib (JStr ''1.234'') = Some (Finite False 1234 (- 3))
   \<and> validate_amount plain_lib (JStr ''1.234'') = Inr (Finite False 1234 (- 3))"
  by (simp add: validator_defs)

text \<open>
  C9, amended. \<open>validate_amount\<close> returns the decimal that the conversion of the text of
  the value gives, with the exponent it has; it raises \<^verbatim>\<open>ValidationError\<close> exactly when the
  conversion raises, when the decimal is a NaN and when it is less than zero (the negative
  infinity is; a negative zero and the positive infinity are returned).
\<close>

theorem validate_amount_result:
  "validate_amount L v =
     (case Decimal_str L v of
        None \<Rightarrow> Inl (ValidationError ''Amount must be a valid number'')
      | Some NaN \<Rightarrow> Inl (ValidationError ''Amount must be a valid number'')
      | Some (Infinity s) \<Rightarrow>
          if s then Inl (ValidationError ''Amount must be non-negative'') else Inr (Infinity s)
      | Some (Finite s c e) \<Rightarrow>
          if s \<and> c \<noteq> 0 then Inl (ValidationError ''Amount must be non-negative'')
          else Inr (Finite s c e))"
  by (auto simp: validate_amount_def dec_value_zero dec_value_negative
      split: option.splits decimal.splits bool.splits)

subsection \<open>C10: the date of a new claim lies in the period of its policy\<close>

text \<open>
  C10. In the manager, a claim whose date is before the start date or after the end date of
  the policy it names is never stored: the call raises and the manager is as before. When
  the identifier is new and the amount is within the coverage, so that no earlier check
  refuses the claim, the error is the one of the date.
\<close>

theorem manager_create_claim_date_outside:
  assumes "map_of (policies m) (claim_policy_id c) = Some p"
    and "date c < start_date p \<or> end_date p < date c"
  shows "(\<exists>e. manager_create_claim m c = (Inl e, m))
    \<and> (\<not> has_key (claims m) (claim_id c) \<and> amount c \<le> coverage_amount p \<longrightarrow>
         manager_create_claim m c = (Inl (ValueError ''Claim date outside policy period''), m))"
  using assms by (auto simp: manager_create_claim_def)

theorem manager_create_claim_date_outside_witness:
  "map_of (policies manager_p1) (claim_policy_id (c1\<lparr>date := (2023, 12, 31)\<rparr>)) = Some p1
   \<and> date (c1\<lparr>date := (2023, 12, 31)\<rparr>) < start_date p1
   \<and> \<not> has_key (claims manager_p1) (claim_id (c1\<lparr>date := (2023, 12, 31)\<rparr>))
   \<and> amount (c1\<lparr>date := (2023, 12, 31)\<rparr>) \<le> coverage_amount p1
   \<and> manager_create_claim manager_p1 (c1\<lparr>date := (2023, 12, 31)\<rparr>)
       = (Inl (ValueError ''Claim date outside policy period''), manager_p1)
   \<and> map_of (policies manager_p1) (claim_policy_id (c1\<lparr>date := (2025, 1, 2)\<rparr>)) = Some p1
   \<and> end_date p1 < date (c1\<lparr>date := (2025, 1, 2)\<rparr>)
   \<and> manager_create_claim manager_p1 (c1\<lparr>date := (2025, 1, 2)\<rparr>)
       = (Inl (ValueError ''Claim date outside policy period''), manager_p1)"
proof -
  have a: "map_of (policies manager_p1) (claim_policy_id (c1\<lparr>date := (2023, 12, 31)\<rparr>)) = Some p1"
    "map_of (policies manager_p1) (claim_policy_id (c1\<lparr>date := (2025, 1, 2)\<rparr>)) = Some p1"
    by (simp_all add: manager_p1_def c1_def)
  have b: "date (c1\<lparr>date := (2023, 12, 31)\<rparr>) < start_date p1"
    "end_date p1 < date (c1\<lparr>date := (2025, 1, 2)\<rparr>)"
    by (simp_all add: p1_def)
  have c: "\<not> has_key (claims manager_p1) (claim_id (c1\<lparr>date := (2023, 12, 31)\<rparr>))"
    "amount (c1\<lparr>date := (2023, 12, 31)\<rparr>) \<le> coverage_amount p1"
    "\<not> has_key (claims manager_p1) (claim_id (c1\<lparr>date := (2025, 1, 2)\<rparr>))"
    "amount (c1\<lparr>date := (2025, 1, 2)\<rparr>) \<le> coverage_amount p1"
    by (simp_all add: has_key_def manager_p1_def c1_def p1_def)
  have r1: "manager_create_claim manager_p1 (c1\<lparr>date := (2023, 12, 31)\<rparr>)
       = (Inl (ValueError ''Claim date outside policy period''), manager_p1)"
    using manager_create_claim_date_outside [OF a(1) disjI1 [OF b(1)]] c by blast
  have r2: "manager_create_claim manager_p1 (c1\<lparr>date := (2025, 1, 2)\<rparr>)
       = (Inl (ValueError ''Claim date outside policy period''), manager_p1)"
    using manager_create_claim_date_outside [OF a(2) disjI2 [OF b(2)]] c by blast
  show ?thesis
    by (intro conjI a b c r1 r2)
qed

end
